theory Spec2Isabelle
  imports Main "HOL-Library.Word" "HOL-Library.Sublist"
begin

section \<open>Data model\<close>

text \<open>
  The client in \<^verbatim>\<open>pkg/pterodactyl/pterodactyl_client.go\<close> talks to a panel over
  HTTP, sleeps, and writes one file. The embedding makes these effects explicit: every
  operation takes the \<open>world\<close> it runs in and returns the world it leaves behind,
  and the outside (the panel's answers, the JSON decoder, the file system's failures) is
  a parameter \<open>env\<close>.
\<close>

text \<open>
  A \<^verbatim>\<open>time.Time\<close> is modelled by its instant, as an offset from Go's zero time;
  \<^verbatim>\<open>IsZero\<close> holds of the zero instant only.
\<close>

type_synonym time = int

definition IsZero :: "time \<Rightarrow> bool" where
  "IsZero t = (t = 0)"

text \<open>
  Modelled from the spec: the record types \<^verbatim>\<open>PterodactylServer\<close>, \<^verbatim>\<open>Server\<close>,
  \<^verbatim>\<open>Backup\<close>, \<^verbatim>\<open>BackupUrl\<close>, \<^verbatim>\<open>Servers\<close>, \<^verbatim>\<open>Backups\<close> and \<^verbatim>\<open>ApiErrors\<close>
  are declared in a file of the package that is not part of the sources at hand. They carry
  the fields the client reads (\<^verbatim>\<open>server.Attributes.UUID\<close>, \<^verbatim>\<open>backup.Attributes.UUID\<close>,
  \<^verbatim>\<open>backup.Attributes.CompletedAt\<close>, \<^verbatim>\<open>backupUrl.Attributes.URL\<close>,
  \<^verbatim>\<open>servers.Servers\<close>, \<^verbatim>\<open>backups.Backups\<close>) and, for the error payload, the
  ordered collection of code and detail pairs of the spec. The nested \<^verbatim>\<open>Attributes\<close>
  struct is flattened. A Go slice that may be \<^verbatim>\<open>nil\<close> is a \<open>list option\<close>:
  \<open>None\<close> is the nil slice, \<open>Some []\<close> the empty slice that is not nil.
\<close>

record PterodactylServer =
  Url :: string
  ApiKey :: string

record Server =
  server_UUID :: string

record Backup =
  backup_UUID :: string
  CompletedAt :: time

record BackupUrl =
  URL :: string

record Servers =
  Servers :: "Server list option"

record Backups =
  Backups :: "Backup list option"

record ApiError =
  code :: string
  detail :: string

record ApiErrors =
  Errors :: "ApiError list"

text \<open>The zero values that \<^verbatim>\<open>var x T\<close> declares.\<close>

definition zero_Server :: Server where
  "zero_Server = \<lparr>server_UUID = []\<rparr>"

definition zero_Backup :: Backup where
  "zero_Backup = \<lparr>backup_UUID = [], CompletedAt = 0\<rparr>"

definition zero_BackupUrl :: BackupUrl where
  "zero_BackupUrl = \<lparr>URL = []\<rparr>"

definition zero_Servers :: Servers where
  "zero_Servers = \<lparr>Servers = None\<rparr>"

definition zero_Backups :: Backups where
  "zero_Backups = \<lparr>Backups = None\<rparr>"

definition zero_ApiErrors :: ApiErrors where
  "zero_ApiErrors = \<lparr>Errors = []\<rparr>"

text \<open>
  Go errors as values. \<open>Errorf\<close> carries the message of an error made by
  \<^verbatim>\<open>errors.New\<close> or \<^verbatim>\<open>fmt.Errorf\<close>; the other constructors are the errors the
  libraries return (the HTTP client, \<^verbatim>\<open>json.Unmarshal\<close>, the \<^verbatim>\<open>os\<close> package, and
  \<^verbatim>\<open>os.ErrClosed\<close> for an operation on a closed file).
\<close>

datatype error =
    NetError string
  | JsonError string
  | OsError string
  | ErrClosed
  | Errorf string

text \<open>A function either returns or panics (a nil pointer dereference).\<close>

datatype 'a exec = Panicked | Returned 'a

record request =
  req_method :: string
  req_url :: string
  req_headers :: "(string \<times> string) list"
  req_form :: "(string \<times> string) list"

text \<open>
  A response: its status code and its body stream. The stream delivers the bytes
  \<open>body\<close> and then ends, with a read error when \<open>body_err\<close> is set and with EOF
  otherwise.
\<close>

record response =
  StatusCode :: int
  body :: string
  body_err :: "error option"

datatype event =
    NewRequest string string
  | Do request
  | Sleep "64 word"

text \<open>
  The outside. \<open>new_request_ok m u\<close>: \<^verbatim>\<open>http.NewRequest\<close> accepts method \<open>m\<close> and
  URL \<open>u\<close>. \<open>net n\<close>: what the \<open>n\<close>-th call of \<^verbatim>\<open>http.DefaultClient.Do\<close> of the run
  yields (any panel, whatever it makes its answers depend on, gives such a sequence).
  \<open>json_T b x\<close>: \<^verbatim>\<open>json.Unmarshal\<close> of the bytes \<open>b\<close> into a \<open>T\<close> that holds
  \<open>x\<close>; it gives the value held afterwards and the error. \<open>os_create p\<close>: the error
  of \<^verbatim>\<open>os.Create\<close> at path \<open>p\<close>, if any. \<open>write_fault p = Some (k, e)\<close>: the file at
  \<open>p\<close> cannot grow beyond \<open>k\<close> bytes, a write that would do so stores what fits and
  fails with \<open>e\<close>.
\<close>

record env =
  new_request_ok :: "string \<Rightarrow> string \<Rightarrow> bool"
  net :: "nat \<Rightarrow> error + response"
  json_servers :: "string \<Rightarrow> Servers \<Rightarrow> Servers \<times> error option"
  json_server :: "string \<Rightarrow> Server \<Rightarrow> Server \<times> error option"
  json_backups :: "string \<Rightarrow> Backups \<Rightarrow> Backups \<times> error option"
  json_backup :: "string \<Rightarrow> Backup \<Rightarrow> Backup \<times> error option"
  json_backup_url :: "string \<Rightarrow> BackupUrl \<Rightarrow> BackupUrl \<times> error option"
  json_api_errors :: "string \<Rightarrow> ApiErrors \<Rightarrow> ApiErrors \<times> error option"
  os_create :: "string \<Rightarrow> error option"
  write_fault :: "string \<Rightarrow> (nat \<times> error) option"

text \<open>
  The state. \<open>WaitForBackupSeconds\<close> is the package variable (an \<^verbatim>\<open>int64\<close>);
  \<open>calls\<close> counts the round trips made so far; \<open>trace\<close> lists the requests built,
  the requests sent and the sleeps, in order; \<open>files\<close> is the file system;
  \<open>handles\<close> is the table of \<^verbatim>\<open>*os.File\<close> values, a handle being its index: the
  path it was opened at and whether it is still open. Calls into the logger change
  nothing of this and are left out.
\<close>

record world =
  WaitForBackupSeconds :: "64 word"
  calls :: nat
  trace :: "event list"
  files :: "string \<Rightarrow> string option"
  handles :: "(string \<times> bool) list"

section \<open>Library operations\<close>

text \<open>
  \<^verbatim>\<open>ioutil.ReadAll\<close> reads until an error or EOF and returns the data it read, with
  the error.
\<close>

definition ReadAll :: "response \<Rightarrow> string \<times> error option" where
  "ReadAll res = (body res, body_err res)"

definition time_Sleep :: "64 word \<Rightarrow> world \<Rightarrow> world" where
  "time_Sleep d w = w\<lparr>trace := trace w @ [Sleep d]\<rparr>"

text \<open>\<^verbatim>\<open>time.Second\<close>, in nanoseconds.\<close>

definition Second :: "64 word" where
  "Second = 1000000000"

text \<open>
  \<^verbatim>\<open>os.Create\<close> creates the file or truncates it, and returns a fresh open handle,
  or it fails with an error and no handle.
\<close>

definition os_Create :: "env \<Rightarrow> string \<Rightarrow> world \<Rightarrow> (error + nat) \<times> world" where
  "os_Create env name w =
     (case os_create env name of
        Some err \<Rightarrow> (Inl err, w)
      | None \<Rightarrow>
          (Inr (length (handles w)),
           w\<lparr>files := (files w)(name \<mapsto> []), handles := handles w @ [(name, True)]\<rparr>))"

definition is_open :: "world \<Rightarrow> nat \<Rightarrow> bool" where
  "is_open w h = (h < length (handles w) \<and> snd (handles w ! h))"

definition File_Close :: "nat \<Rightarrow> world \<Rightarrow> error option \<times> world" where
  "File_Close h w =
     (if is_open w h
      then (None, w\<lparr>handles := (handles w)[h := (fst (handles w ! h), False)]\<rparr>)
      else (Some ErrClosed, w))"

text \<open>
  A write through a handle appends to the file (the client only writes through the handle
  it has just created): the number of bytes written and the error.
\<close>

definition File_Write :: "env \<Rightarrow> nat \<Rightarrow> string \<Rightarrow> world \<Rightarrow> (nat \<times> error option) \<times> world" where
  "File_Write env h d w =
     (if \<not> is_open w h then ((0, Some ErrClosed), w)
      else
        let p = fst (handles w ! h);
            old = (case files w p of None \<Rightarrow> [] | Some c \<Rightarrow> c)
        in case write_fault env p of
             None \<Rightarrow> ((length d, None), w\<lparr>files := (files w)(p \<mapsto> old @ d)\<rparr>)
           | Some (k, err) \<Rightarrow>
               if length (old @ d) \<le> k
               then ((length d, None), w\<lparr>files := (files w)(p \<mapsto> old @ d)\<rparr>)
               else ((k - length old, Some err),
                     w\<lparr>files := (files w)(p \<mapsto> old @ take (k - length old) d)\<rparr>))"

definition File_Read :: "nat \<Rightarrow> world \<Rightarrow> string \<times> error option" where
  "File_Read h w =
     (if \<not> is_open w h then ([], Some ErrClosed)
      else (case files w (fst (handles w ! h)) of None \<Rightarrow> [] | Some c \<Rightarrow> c, None))"

text \<open>
  \<^verbatim>\<open>io.Copy\<close> from a response body to a file: the data the body delivers is written;
  a write error ends the copy, and otherwise the body's read error, if any, is the result.
\<close>

definition io_Copy :: "env \<Rightarrow> nat \<Rightarrow> response \<Rightarrow> world \<Rightarrow> (nat \<times> error option) \<times> world" where
  "io_Copy env out res w =
     (if body res = [] then ((0, body_err res), w)
      else
        case File_Write env out (body res) w of
          ((n, Some err), w') \<Rightarrow> ((n, Some err), w')
        | ((n, None), w') \<Rightarrow> ((n, body_err res), w'))"

text \<open>The verb \<^verbatim>\<open>%d\<close> of \<^verbatim>\<open>fmt\<close>: an integer in decimal.\<close>

fun digits :: "nat \<Rightarrow> string" where
  "digits n =
     (if n < 10 then [''0123456789'' ! n]
      else digits (n div 10) @ [''0123456789'' ! (n mod 10)])"

declare digits.simps [simp del]

definition fmt_d :: "int \<Rightarrow> string" where
  "fmt_d i = (if i < 0 then ''-'' @ digits (nat (- i)) else digits (nat i))"

text \<open>
  Modelled from the spec: how \<^verbatim>\<open>%s\<close> renders an \<^verbatim>\<open>ApiErrors\<close> depends on the
  type's declaration, which is not among the sources at hand. The rendering here is the one
  \<^verbatim>\<open>fmt\<close> gives a struct of strings without a \<^verbatim>\<open>String\<close> method: every pair in
  braces, its code and its detail separated by a space, the pairs in order in brackets.
\<close>

definition fmt_s_ApiError :: "ApiError \<Rightarrow> string" where
  "fmt_s_ApiError e = ''{'' @ code e @ '' '' @ detail e @ ''}''"

fun join_sp :: "string list \<Rightarrow> string" where
  "join_sp [] = []"
| "join_sp [x] = x"
| "join_sp (x # y # ys) = x @ '' '' @ join_sp (y # ys)"

definition fmt_s_ApiErrors :: "ApiErrors \<Rightarrow> string" where
  "fmt_s_ApiErrors a = ''{['' @ join_sp (map fmt_s_ApiError (Errors a)) @ '']}''"

section \<open>The client\<close>

definition ApiEndpointBase :: string where
  "ApiEndpointBase = ''api''"

definition ApiEndpointServers :: string where
  "ApiEndpointServers = ''client''"

definition ApiEndpointServer :: string where
  "ApiEndpointServer = ''client/servers''"

definition ApiEndpointBackups :: string where
  "ApiEndpointBackups = ''backups''"

definition MethodGet :: string where
  "MethodGet = ''GET''"

definition MethodPost :: string where
  "MethodPost = ''POST''"

definition MethodDelete :: string where
  "MethodDelete = ''DELETE''"

definition StatusOK :: int where
  "StatusOK = 200"

text \<open>
  \<^verbatim>\<open>buildApiUrl\<close>: the loop over \<^verbatim>\<open>subPaths\<close> is a left fold, each step being
  \<^verbatim>\<open>fmt.Sprintf("%s/%s", url, path)\<close>.
\<close>

definition buildApiUrl :: "PterodactylServer \<Rightarrow> string \<Rightarrow> string list \<Rightarrow> string" where
  "buildApiUrl pterodactylServer endpoint subPaths =
     foldl (\<lambda>url path. url @ ''/'' @ path)
       (Url pterodactylServer @ ''/'' @ ApiEndpointBase @ ''/'' @ endpoint) subPaths"

text \<open>
  \<^verbatim>\<open>callApi\<close>. The error of \<^verbatim>\<open>http.NewRequest\<close> is dropped; when there is one the
  request is nil and \<^verbatim>\<open>req.Header.Add\<close> dereferences it. The error of
  \<^verbatim>\<open>ioutil.ReadAll\<close> is dropped too. The result is the value \<^verbatim>\<open>apiObject\<close> points to
  afterwards, and the error returned. The form fields are kept as they are in the request
  (on the wire the body is their URL encoding). The deferred \<^verbatim>\<open>res.Body.Close()\<close>
  changes nothing of the state and is left out, here and in the download.
\<close>

definition callApi ::
  "env \<Rightarrow> (string \<Rightarrow> 'a \<Rightarrow> 'a \<times> error option) \<Rightarrow> 'a \<Rightarrow> PterodactylServer \<Rightarrow> string \<Rightarrow> string \<Rightarrow>
   string list \<Rightarrow> (string \<times> string) list \<Rightarrow> world \<Rightarrow> ('a \<times> error option) exec \<times> world" where
  "callApi env unmarshal apiObject pterodactylServer method endpoint subPaths data w =
     (let apiUrl = buildApiUrl pterodactylServer endpoint subPaths;
          w1 = w\<lparr>trace := trace w @ [NewRequest method apiUrl]\<rparr>
      in if \<not> new_request_ok env method apiUrl then (Panicked, w1)
         else
           let req = \<lparr>req_method = method, req_url = apiUrl,
                      req_headers = [(''Accept'', ''application/json''),
                                     (''Authorization'', ''Bearer '' @ ApiKey pterodactylServer)],
                      req_form = data\<rparr>;
               w2 = w1\<lparr>calls := Suc (calls w1), trace := trace w1 @ [Do req]\<rparr>
           in case net env (calls w1) of
                Inl err \<Rightarrow> (Returned (apiObject, Some err), w2)
              | Inr res \<Rightarrow>
                  let body = fst (ReadAll res)
                  in if StatusCode res \<noteq> StatusOK
                     then (case json_api_errors env body zero_ApiErrors of
                             (apiErrors, Some err) \<Rightarrow> (Returned (apiObject, Some err), w2)
                           | (apiErrors, None) \<Rightarrow>
                               (Returned (apiObject,
                                  Some (Errorf (''api call failed with errors: '' @
                                                fmt_s_ApiErrors apiErrors))), w2))
                     else (Returned (unmarshal body apiObject), w2))"

definition GetServers ::
  "env \<Rightarrow> PterodactylServer \<Rightarrow> world \<Rightarrow> (Server list option \<times> error option) exec \<times> world" where
  "GetServers env pterodactylServer w =
     (case callApi env (json_servers env) zero_Servers pterodactylServer MethodGet
             ApiEndpointServers [] [] w of
        (Panicked, w') \<Rightarrow> (Panicked, w')
      | (Returned (servers, Some err), w') \<Rightarrow> (Returned (None, Some err), w')
      | (Returned (servers, None), w') \<Rightarrow>
          (case Servers servers of
             None \<Rightarrow> (Returned (None, Some (Errorf ''no servers returned'')), w')
           | Some xs \<Rightarrow> (Returned (Some xs, None), w')))"

definition GetServer ::
  "env \<Rightarrow> PterodactylServer \<Rightarrow> string \<Rightarrow> world \<Rightarrow> (Server \<times> error option) exec \<times> world" where
  "GetServer env pterodactylServer serverId w =
     (case callApi env (json_server env) zero_Server pterodactylServer MethodGet
             ApiEndpointServer [serverId] [] w of
        (Panicked, w') \<Rightarrow> (Panicked, w')
      | (Returned (server, Some err), w') \<Rightarrow> (Returned (server, Some err), w')
      | (Returned (server, None), w') \<Rightarrow> (Returned (server, None), w'))"

definition GetServerBackups ::
  "env \<Rightarrow> PterodactylServer \<Rightarrow> Server \<Rightarrow> world \<Rightarrow> (Backup list option \<times> error option) exec \<times> world" where
  "GetServerBackups env pterodactylServer server w =
     (case callApi env (json_backups env) zero_Backups pterodactylServer MethodGet
             ApiEndpointServer [server_UUID server, ApiEndpointBackups] [] w of
        (Panicked, w') \<Rightarrow> (Panicked, w')
      | (Returned (backups, Some err), w') \<Rightarrow> (Returned (None, Some err), w')
      | (Returned (backups, None), w') \<Rightarrow>
          (case Backups backups of
             None \<Rightarrow> (Returned (None, Some (Errorf ''no backups returned'')), w')
           | Some xs \<Rightarrow> (Returned (Some xs, None), w')))"

definition GetServerBackup ::
  "env \<Rightarrow> PterodactylServer \<Rightarrow> Server \<Rightarrow> string \<Rightarrow> world \<Rightarrow> (Backup \<times> error option) exec \<times> world" where
  "GetServerBackup env pterodactylServer server backupId w =
     (case callApi env (json_backup env) zero_Backup pterodactylServer MethodGet
             ApiEndpointServer [server_UUID server, ApiEndpointBackups, backupId] [] w of
        (Panicked, w') \<Rightarrow> (Panicked, w')
      | (Returned (backup, Some err), w') \<Rightarrow> (Returned (backup, Some err), w')
      | (Returned (backup, None), w') \<Rightarrow> (Returned (backup, None), w'))"

definition DeleteServerBackup ::
  "env \<Rightarrow> PterodactylServer \<Rightarrow> Server \<Rightarrow> string \<Rightarrow> world \<Rightarrow> (Backup \<times> error option) exec \<times> world" where
  "DeleteServerBackup env pterodactylServer server backupId w =
     (case callApi env (json_backup env) zero_Backup pterodactylServer MethodDelete
             ApiEndpointServer [server_UUID server, ApiEndpointBackups, backupId] [] w of
        (Panicked, w') \<Rightarrow> (Panicked, w')
      | (Returned (backup, Some err), w') \<Rightarrow> (Returned (backup, Some err), w')
      | (Returned (backup, None), w') \<Rightarrow> (Returned (backup, None), w'))"

text \<open>
  \<^verbatim>\<open>DownloadServerBackup\<close>. The result is the \<^verbatim>\<open>*os.File\<close> returned (\<open>None\<close> is
  nil) and the error. Once the file is created, the deferred \<^verbatim>\<open>out.Close()\<close> runs on
  every way out, after the value to return is fixed.
\<close>

definition DownloadServerBackup ::
  "env \<Rightarrow> PterodactylServer \<Rightarrow> Server \<Rightarrow> string \<Rightarrow> string \<Rightarrow> world \<Rightarrow>
   (nat option \<times> error option) exec \<times> world" where
  "DownloadServerBackup env pterodactylServer server backupId destination w =
     (case callApi env (json_backup_url env) zero_BackupUrl pterodactylServer MethodGet
             ApiEndpointServer [server_UUID server, ApiEndpointBackups, backupId, ''download''] [] w of
        (Panicked, w1) \<Rightarrow> (Panicked, w1)
      | (Returned (backupUrl, Some err), w1) \<Rightarrow> (Returned (None, Some err), w1)
      | (Returned (backupUrl, None), w1) \<Rightarrow>
          let w2 = w1\<lparr>trace := trace w1 @ [NewRequest MethodGet (URL backupUrl)]\<rparr>
          in if \<not> new_request_ok env MethodGet (URL backupUrl) then (Panicked, w2)
             else
               let req = \<lparr>req_method = MethodGet, req_url = URL backupUrl,
                          req_headers = [(''Accept'', ''application/json'')], req_form = []\<rparr>;
                   w3 = w2\<lparr>calls := Suc (calls w2), trace := trace w2 @ [Do req]\<rparr>
               in (case net env (calls w2) of
                     Inl err \<Rightarrow> (Returned (None, Some err), w3)
                   | Inr res \<Rightarrow>
                       if StatusCode res = StatusOK
                       then (case os_Create env destination w3 of
                               (Inl err, w4) \<Rightarrow> (Returned (None, Some err), w4)
                             | (Inr out, w4) \<Rightarrow>
                                 (case io_Copy env out res w4 of
                                    ((n, Some err), w5) \<Rightarrow>
                                      (Returned (None, Some err), snd (File_Close out w5))
                                  | ((n, None), w5) \<Rightarrow>
                                      (Returned (Some out, None), snd (File_Close out w5))))
                       else (Returned (None,
                               Some (Errorf (''download failed with status code '' @
                                             fmt_d (StatusCode res)))), w3)))"

definition BackupServer ::
  "env \<Rightarrow> PterodactylServer \<Rightarrow> Server \<Rightarrow> world \<Rightarrow> (Backup \<times> error option) exec \<times> world" where
  "BackupServer env pterodactylServer server w =
     (case callApi env (json_backup env) zero_Backup pterodactylServer MethodPost
             (ApiEndpointServer @ ''/'' @ server_UUID server @ ''/'' @ ApiEndpointBackups) [] [] w of
        (Panicked, w') \<Rightarrow> (Panicked, w')
      | (Returned (backup, Some err), w') \<Rightarrow> (Returned (backup, Some err), w')
      | (Returned (backup, None), w') \<Rightarrow> (Returned (backup, None), w'))"

text \<open>
  The \<^verbatim>\<open>for\<close> loop of \<^verbatim>\<open>BackupServerWithWait\<close>. It has no bound, so the model is a
  partial function: \<open>None\<close> is a loop that never ends. The sleep is in the branch taken
  when \<^verbatim>\<open>CompletedAt\<close> is not zero, before the \<^verbatim>\<open>break\<close>; when it is zero the loop
  goes round at once.
\<close>

partial_function (option) wait_loop ::
  "env \<Rightarrow> PterodactylServer \<Rightarrow> Server \<Rightarrow> Backup \<Rightarrow> world \<Rightarrow>
   ((Backup option \<times> error option) exec \<times> world) option" where
  "wait_loop env pterodactylServer server backup w =
     (case GetServerBackup env pterodactylServer server (backup_UUID backup) w of
        (Panicked, w1) \<Rightarrow> Some (Panicked, w1)
      | (Returned (backup', Some err), w1) \<Rightarrow> Some (Returned (None, Some err), w1)
      | (Returned (backup', None), w1) \<Rightarrow>
          if \<not> IsZero (CompletedAt backup')
          then Some (Returned (Some backup', None),
                     time_Sleep (WaitForBackupSeconds w1 * Second) w1)
          else wait_loop env pterodactylServer server backup' w1)"

definition BackupServerWithWait ::
  "env \<Rightarrow> PterodactylServer \<Rightarrow> Server \<Rightarrow> world \<Rightarrow>
   ((Backup option \<times> error option) exec \<times> world) option" where
  "BackupServerWithWait env pterodactylServer server w =
     (case BackupServer env pterodactylServer server w of
        (Panicked, w') \<Rightarrow> Some (Panicked, w')
      | (Returned (backup, Some err), w') \<Rightarrow> Some (Returned (None, Some err), w')
      | (Returned (backup, None), w') \<Rightarrow> wait_loop env pterodactylServer server backup w')"

section \<open>Observations\<close>

text \<open>
  What a run leaves in the trace: the method and URL of every request built, and the
  outline of the round trips and sleeps (a round trip shows as its method, a sleep as
  \<open>sleep\<close>).
\<close>

fun requested :: "event list \<Rightarrow> (string \<times> string) list" where
  "requested [] = []"
| "requested (NewRequest m u # es) = (m, u) # requested es"
| "requested (Do r # es) = requested es"
| "requested (Sleep d # es) = requested es"

fun outline :: "event list \<Rightarrow> string list" where
  "outline [] = []"
| "outline (NewRequest m u # es) = outline es"
| "outline (Do r # es) = req_method r # outline es"
| "outline (Sleep d # es) = ''sleep'' # outline es"

text \<open>
  What the \<open>n\<close>-th round trip means to a call that expects a backup record:
  \<open>reported\<close> is the record, when the answer has status 200 and decodes;
  \<open>fetch_error\<close> is the error of the call, when it has one (the transport's, the
  panel's error payload or the decoder's).
\<close>

definition reported :: "env \<Rightarrow> nat \<Rightarrow> Backup option" where
  "reported env n =
     (case net env n of
        Inl err \<Rightarrow> None
      | Inr res \<Rightarrow>
          if StatusCode res = 200
          then (case json_backup env (body res) zero_Backup of
                  (b, None) \<Rightarrow> Some b
                | (b, Some err) \<Rightarrow> None)
          else None)"

definition fetch_error :: "env \<Rightarrow> nat \<Rightarrow> error option" where
  "fetch_error env n =
     (case net env n of
        Inl err \<Rightarrow> Some err
      | Inr res \<Rightarrow>
          if StatusCode res = 200 then snd (json_backup env (body res) zero_Backup)
          else (case json_api_errors env (body res) zero_ApiErrors of
                  (a, Some err) \<Rightarrow> Some err
                | (a, None) \<Rightarrow>
                    Some (Errorf (''api call failed with errors: '' @ fmt_s_ApiErrors a))))"

definition backup_url :: "PterodactylServer \<Rightarrow> Server \<Rightarrow> string \<Rightarrow> string" where
  "backup_url ps s backupId =
     buildApiUrl ps ApiEndpointServer [server_UUID s, ApiEndpointBackups, backupId]"

section \<open>Example environments\<close>

text \<open>
  A panel given by the list of its answers, decoders that know a few bodies by name, a
  request constructor that rejects a URL with the control character DEL (as
  \<^verbatim>\<open>url.Parse\<close> does), and a file system without faults.
\<close>

definition script :: "(error + response) list \<Rightarrow> nat \<Rightarrow> error + response" where
  "script rs n = (if n < length rs then rs ! n else Inl (NetError ''connection refused''))"

definition answer :: "int \<Rightarrow> string \<Rightarrow> error + response" where
  "answer st b = Inr \<lparr>StatusCode = st, body = b, body_err = None\<rparr>"

definition demo_json_error :: "string \<Rightarrow> error" where
  "demo_json_error b =
     (if b = [] then JsonError ''unexpected end of JSON input''
      else JsonError ''invalid character'')"

definition pending_backup :: Backup where
  "pending_backup = \<lparr>backup_UUID = ''b1'', CompletedAt = 0\<rparr>"

definition completed_backup :: Backup where
  "completed_backup = \<lparr>backup_UUID = ''b1'', CompletedAt = 1700000000\<rparr>"

definition demo_json_backup :: "string \<Rightarrow> Backup \<Rightarrow> Backup \<times> error option" where
  "demo_json_backup b x =
     (if b = ''pending'' then (pending_backup, None)
      else if b = ''completed'' then (completed_backup, None)
      else (x, Some (demo_json_error b)))"

definition demo_json_server :: "string \<Rightarrow> Server \<Rightarrow> Server \<times> error option" where
  "demo_json_server b x =
     (if b = ''server'' then (\<lparr>server_UUID = ''s1''\<rparr>, None)
      else (x, Some (demo_json_error b)))"

definition demo_json_servers :: "string \<Rightarrow> Servers \<Rightarrow> Servers \<times> error option" where
  "demo_json_servers b x =
     (if b = ''no field'' then (x, None)
      else if b = ''empty array'' then (\<lparr>Servers = Some []\<rparr>, None)
      else if b = ''one server'' then (\<lparr>Servers = Some [\<lparr>server_UUID = ''s1''\<rparr>]\<rparr>, None)
      else (x, Some (demo_json_error b)))"

definition demo_json_backups :: "string \<Rightarrow> Backups \<Rightarrow> Backups \<times> error option" where
  "demo_json_backups b x =
     (if b = ''no field'' then (x, None)
      else if b = ''empty array'' then (\<lparr>Backups = Some []\<rparr>, None)
      else if b = ''one backup'' then (\<lparr>Backups = Some [completed_backup]\<rparr>, None)
      else (x, Some (demo_json_error b)))"

definition demo_json_backup_url :: "string \<Rightarrow> BackupUrl \<Rightarrow> BackupUrl \<times> error option" where
  "demo_json_backup_url b x =
     (if b = ''signed'' then (\<lparr>URL = ''https://cdn.example/b1?sig=1''\<rparr>, None)
      else (x, Some (demo_json_error b)))"

definition demo_json_api_errors :: "string \<Rightarrow> ApiErrors \<Rightarrow> ApiErrors \<times> error option" where
  "demo_json_api_errors b x =
     (if b = ''not found''
      then (\<lparr>Errors = [\<lparr>code = ''NotFoundHttpException'', detail = ''no such resource''\<rparr>]\<rparr>, None)
      else (x, Some (demo_json_error b)))"

definition demo_env :: "(error + response) list \<Rightarrow> env" where
  "demo_env rs =
     \<lparr>new_request_ok = (\<lambda>m u. CHR 0x7F \<notin> set u),
      net = script rs,
      json_servers = demo_json_servers,
      json_server = demo_json_server,
      json_backups = demo_json_backups,
      json_backup = demo_json_backup,
      json_backup_url = demo_json_backup_url,
      json_api_errors = demo_json_api_errors,
      os_create = (\<lambda>p. None),
      write_fault = (\<lambda>p. None)\<rparr>"

definition panel :: PterodactylServer where
  "panel = \<lparr>Url = ''https://panel.example'', ApiKey = ''key''\<rparr>"

definition bad_panel :: PterodactylServer where
  "bad_panel = \<lparr>Url = ''https://panel.example'' @ [CHR 0x7F], ApiKey = ''key''\<rparr>"

definition cut_short :: "int \<Rightarrow> string \<Rightarrow> error + response" where
  "cut_short st b = Inr \<lparr>StatusCode = st, body = b, body_err = Some (NetError ''unexpected EOF'')\<rparr>"

definition srv1 :: Server where
  "srv1 = \<lparr>server_UUID = ''s1''\<rparr>"

definition world0 :: world where
  "world0 = \<lparr>WaitForBackupSeconds = 5, calls = 0, trace = [], files = Map.empty, handles = []\<rparr>"

lemmas demo_simps =
  demo_env_def script_def answer_def cut_short_def world0_def panel_def bad_panel_def srv1_def
  buildApiUrl_def
  ApiEndpointBase_def ApiEndpointServer_def ApiEndpointServers_def ApiEndpointBackups_def
  MethodGet_def MethodPost_def

section \<open>The URL builder\<close>

lemma foldl_slash:
  "foldl (\<lambda>url path. url @ CHR ''/'' # path) u ps = u @ concat (map (\<lambda>p. CHR ''/'' # p) ps)"
  by (induction ps arbitrary: u) simp_all

text \<open>
  C2. The URL built from a server descriptor, an endpoint and a list of path segments is
  the base URL, \<open>/api/\<close>, the endpoint, and then each segment in order with one
  \<open>/\<close> in front of it; with no segment nothing follows the endpoint.
\<close>

theorem buildApiUrl_exact:
  "buildApiUrl srv endpoint subPaths =
     Url srv @ ''/api/'' @ endpoint @ concat (map (\<lambda>seg. ''/'' @ seg) subPaths)
   \<and> buildApiUrl srv endpoint [] = Url srv @ ''/api/'' @ endpoint"
  by (simp add: buildApiUrl_def foldl_slash ApiEndpointBase_def)

section \<open>Requests built by the accessors\<close>

lemma requested_append: "requested (xs @ ys) = requested xs @ requested ys"
  by (induction xs rule: requested.induct) simp_all

lemma outline_append: "outline (xs @ ys) = outline xs @ outline ys"
  by (induction xs rule: outline.induct) simp_all

lemma callApi_requested:
  "requested (trace (snd (callApi env unm obj ps m ep sp d w))) =
     requested (trace w) @ [(m, buildApiUrl ps ep sp)]"
  by (simp add: callApi_def Let_def requested_append split: sum.splits prod.splits option.splits)

lemma BackupServer_world:
  "snd (BackupServer env ps s w) =
     snd (callApi env (json_backup env) zero_Backup ps MethodPost
            (ApiEndpointServer @ ''/'' @ server_UUID s @ ''/'' @ ApiEndpointBackups) [] [] w)"
  by (simp add: BackupServer_def split: prod.splits exec.splits option.splits)

lemma GetServerBackups_world:
  "snd (GetServerBackups env ps s w) =
     snd (callApi env (json_backups env) zero_Backups ps MethodGet
            ApiEndpointServer [server_UUID s, ApiEndpointBackups] [] w)"
  by (simp add: GetServerBackups_def split: prod.splits exec.splits option.splits)

text \<open>
  C10. \<^verbatim>\<open>BackupServer\<close> puts the server's UUID into the endpoint and passes no
  segment, \<^verbatim>\<open>GetServerBackups\<close> passes the UUID and the backups suffix as segments:
  the one request each of them builds has the same URL, the base URL followed by
  \<open>/api/client/servers/\<close>, the UUID and \<open>/backups\<close>.
\<close>

theorem BackupServer_url_eq_GetServerBackups_url:
  "requested (trace (snd (BackupServer env ps s w))) =
     requested (trace w) @
       [(''POST'', Url ps @ ''/api/client/servers/'' @ server_UUID s @ ''/backups'')]
   \<and> requested (trace (snd (GetServerBackups env ps s w))) =
     requested (trace w) @
       [(''GET'', Url ps @ ''/api/client/servers/'' @ server_UUID s @ ''/backups'')]"
  unfolding BackupServer_world GetServerBackups_world callApi_requested buildApiUrl_def
  by (simp add: ApiEndpointBase_def ApiEndpointServer_def ApiEndpointBackups_def
      MethodPost_def MethodGet_def)

section \<open>The transport call\<close>

lemma callApi_panics:
  "\<not> new_request_ok env m (buildApiUrl ps ep sp) \<Longrightarrow>
   callApi env unm obj ps m ep sp d w =
     (Panicked, w\<lparr>trace := trace w @ [NewRequest m (buildApiUrl ps ep sp)]\<rparr>)"
  by (simp add: callApi_def Let_def)

lemma callApi_result:
  "new_request_ok env m (buildApiUrl ps ep sp) \<Longrightarrow>
   fst (callApi env unm obj ps m ep sp d w) =
     Returned
       (case net env (calls w) of
          Inl err \<Rightarrow> (obj, Some err)
        | Inr res \<Rightarrow>
            if StatusCode res = 200 then unm (body res) obj
            else (case json_api_errors env (body res) zero_ApiErrors of
                    (a, Some err) \<Rightarrow> (obj, Some err)
                  | (a, None) \<Rightarrow>
                      (obj, Some (Errorf (''api call failed with errors: '' @
                                          fmt_s_ApiErrors a)))))"
  by (simp add: callApi_def Let_def ReadAll_def StatusOK_def
      split: sum.splits prod.splits option.splits)

lemma callApi_world:
  "new_request_ok env m (buildApiUrl ps ep sp) \<Longrightarrow>
   snd (callApi env unm obj ps m ep sp d w) =
     w\<lparr>calls := Suc (calls w),
       trace := trace w @
         [NewRequest m (buildApiUrl ps ep sp),
          Do \<lparr>req_method = m, req_url = buildApiUrl ps ep sp,
              req_headers = [(''Accept'', ''application/json''),
                             (''Authorization'', ''Bearer '' @ ApiKey ps)],
              req_form = d\<rparr>]\<rparr>"
  by (simp add: callApi_def Let_def split: sum.splits prod.splits option.splits)

lemma sublist_join_sp:
  "x \<in> set xs \<Longrightarrow> sublist x (join_sp xs)"
proof (induction xs rule: join_sp.induct)
  case 1
  then show ?case by simp
next
  case (2 y)
  then show ?case by simp
next
  case (3 y z zs)
  show ?case
  proof (cases "x = y")
    case True
    then show ?thesis by simp
  next
    case False
    with 3 have "sublist x (join_sp (z # zs))" by simp
    then obtain ps ss where "join_sp (z # zs) = ps @ x @ ss"
      by (auto simp: sublist_def)
    then have "join_sp (y # z # zs) = (y @ '' '' @ ps) @ x @ ss" by simp
    then show ?thesis unfolding sublist_def by blast
  qed
qed

lemma sublist_chain: "sublist a b \<Longrightarrow> sublist b c \<Longrightarrow> sublist a c"
  using sublist_order.order.trans by blast

lemma fmt_s_ApiErrors_names:
  assumes "p \<in> set (Errors a)"
  shows "sublist (code p) (fmt_s_ApiErrors a) \<and> sublist (detail p) (fmt_s_ApiErrors a)"
proof -
  have "fmt_s_ApiError p \<in> set (map fmt_s_ApiError (Errors a))"
    using assms by simp
  then have "sublist (fmt_s_ApiError p) (join_sp (map fmt_s_ApiError (Errors a)))"
    by (rule sublist_join_sp)
  moreover have "sublist (join_sp (map fmt_s_ApiError (Errors a))) (fmt_s_ApiErrors a)"
    unfolding fmt_s_ApiErrors_def by (rule sublist_appendI)
  ultimately have whole: "sublist (fmt_s_ApiError p) (fmt_s_ApiErrors a)"
    by (rule sublist_chain)
  have "sublist (code p) (fmt_s_ApiError p)"
    unfolding fmt_s_ApiError_def by (rule sublist_appendI)
  moreover have "fmt_s_ApiError p = (''{'' @ code p @ '' '') @ detail p @ ''}''"
    by (simp add: fmt_s_ApiError_def)
  then have "sublist (detail p) (fmt_s_ApiError p)"
    unfolding sublist_def by blast
  ultimately show ?thesis using whole by (blast intro: sublist_chain)
qed

text \<open>
  C3. When the round trip of \<^verbatim>\<open>callApi\<close> yields a response: with status 200 the
  body is decoded into the caller's object, and the call returns what the decoder returns,
  its error included; with another status the body is decoded as the error payload, and
  the call fails with the decoder's error when there is one, and otherwise with one error
  whose message contains the code and the detail of every pair of the payload.
\<close>

theorem callApi_decodes_by_status:
  assumes "new_request_ok env method (buildApiUrl ps endpoint subPaths)"
    and "net env (calls w) = Inr res"
  shows "(StatusCode res = 200 \<longrightarrow>
            fst (callApi env unm obj ps method endpoint subPaths d w) =
              Returned (unm (body res) obj))
       \<and> (StatusCode res \<noteq> 200 \<longrightarrow>
            (\<forall>a err. json_api_errors env (body res) zero_ApiErrors = (a, Some err) \<longrightarrow>
               fst (callApi env unm obj ps method endpoint subPaths d w) =
                 Returned (obj, Some err))
          \<and> (\<forall>a. json_api_errors env (body res) zero_ApiErrors = (a, None) \<longrightarrow>
               fst (callApi env unm obj ps method endpoint subPaths d w) =
                 Returned (obj, Some (Errorf (''api call failed with errors: '' @
                                              fmt_s_ApiErrors a)))
             \<and> (\<forall>p \<in> set (Errors a).
                  sublist (code p) (fmt_s_ApiErrors a) \<and>
                  sublist (detail p) (fmt_s_ApiErrors a))))"
  using assms by (simp add: callApi_result fmt_s_ApiErrors_names)

theorem callApi_decodes_by_status_witness:
  "fst (callApi (demo_env [answer 404 ''not found'']) demo_json_backup zero_Backup panel
          MethodGet ApiEndpointServer [''s1'', ''backups'', ''b1''] [] world0) =
     Returned (zero_Backup,
       Some (Errorf ''api call failed with errors: {[{NotFoundHttpException no such resource}]}''))
   \<and> fst (callApi (demo_env [answer 200 ''completed'']) demo_json_backup zero_Backup panel
          MethodGet ApiEndpointServer [''s1'', ''backups'', ''b1''] [] world0) =
     Returned (completed_backup, None)
   \<and> fst (callApi (demo_env [answer 200 ''<html>'']) demo_json_backup zero_Backup panel
          MethodGet ApiEndpointServer [''s1'', ''backups'', ''b1''] [] world0) =
     Returned (zero_Backup, Some (JsonError ''invalid character''))
   \<and> fst (callApi (demo_env [answer 502 ''<html>'']) demo_json_backup zero_Backup panel
          MethodGet ApiEndpointServer [''s1'', ''backups'', ''b1''] [] world0) =
     Returned (zero_Backup, Some (JsonError ''invalid character''))"
proof -
  have ok: "new_request_ok (demo_env rs) MethodGet
              (buildApiUrl panel ApiEndpointServer [''s1'', ''backups'', ''b1''])" for rs
    by (simp add: demo_simps)
  have net: "net (demo_env [answer st b]) (calls world0) =
               Inr \<lparr>StatusCode = st, body = b, body_err = None\<rparr>" for st b
    by (simp add: demo_simps)
  have dec: "json_api_errors (demo_env rs) ''not found'' zero_ApiErrors =
               (\<lparr>Errors = [\<lparr>code = ''NotFoundHttpException'', detail = ''no such resource''\<rparr>]\<rparr>, None)"
            "json_api_errors (demo_env rs) ''<html>'' zero_ApiErrors =
               (zero_ApiErrors, Some (JsonError ''invalid character''))" for rs
    by (simp_all add: demo_env_def demo_json_api_errors_def demo_json_error_def)
  show ?thesis
    using callApi_decodes_by_status [OF ok net, of 404 "''not found''" demo_json_backup zero_Backup "[]"]
      callApi_decodes_by_status [OF ok net, of 200 "''completed''" demo_json_backup zero_Backup "[]"]
      callApi_decodes_by_status [OF ok net, of 200 "''<html>''" demo_json_backup zero_Backup "[]"]
      callApi_decodes_by_status [OF ok net, of 502 "''<html>''" demo_json_backup zero_Backup "[]"]
      dec
    by (simp add: fmt_s_ApiErrors_def fmt_s_ApiError_def demo_json_backup_def demo_json_error_def)
qed

text \<open>
  C9, as the code has it. When \<^verbatim>\<open>http.NewRequest\<close> accepts the request,
  \<^verbatim>\<open>callApi\<close> returns, and it returns an error exactly when the round trip fails, the
  status is not 200, or the decoder of the result fails. The error of reading the body is
  dropped: the call behaves as if the body had ended, without error, after the bytes that
  were read.
\<close>

theorem callApi_error_iff:
  assumes ok: "new_request_ok env m (buildApiUrl ps ep sp)"
  shows "(\<exists>obj' err. fst (callApi env unm obj ps m ep sp d w) = Returned (obj', err)
           \<and> ((err \<noteq> None) =
                ((\<exists>e. net env (calls w) = Inl e)
                 \<or> (\<exists>res. net env (calls w) = Inr res
                       \<and> (StatusCode res \<noteq> 200 \<or> snd (unm (body res) obj) \<noteq> None)))))
       \<and> (\<forall>res. net env (calls w) = Inr res \<longrightarrow>
            callApi env unm obj ps m ep sp d w =
              callApi (env\<lparr>net := (net env)(calls w := Inr (res\<lparr>body_err := None\<rparr>))\<rparr>)
                unm obj ps m ep sp d w)"
proof (intro conjI impI allI)
  show "\<exists>obj' err. fst (callApi env unm obj ps m ep sp d w) = Returned (obj', err)
           \<and> ((err \<noteq> None) =
                ((\<exists>e. net env (calls w) = Inl e)
                 \<or> (\<exists>res. net env (calls w) = Inr res
                       \<and> (StatusCode res \<noteq> 200 \<or> snd (unm (body res) obj) \<noteq> None))))"
  proof (cases "net env (calls w)")
    case (Inl e)
    with ok show ?thesis by (simp add: callApi_result)
  next
    case (Inr res)
    show ?thesis
    proof (cases "StatusCode res = 200")
      case True
      with ok Inr show ?thesis
        by (cases "unm (body res) obj") (simp add: callApi_result)
    next
      case False
      with ok Inr show ?thesis
        by (simp add: callApi_result split: prod.splits option.splits)
    qed
  qed
next
  fix res
  assume "net env (calls w) = Inr res"
  then show "callApi env unm obj ps m ep sp d w =
          callApi (env\<lparr>net := (net env)(calls w := Inr (res\<lparr>body_err := None\<rparr>))\<rparr>)
            unm obj ps m ep sp d w"
    by (simp add: callApi_def Let_def ReadAll_def)
qed

theorem callApi_error_iff_witness:
  "(\<exists>obj'. fst (callApi (demo_env [cut_short 200 ''completed'']) demo_json_backup zero_Backup panel
        MethodGet ApiEndpointServer [''s1''] [] world0) = Returned (obj', None))
   \<and> (\<exists>obj' e. fst (callApi (demo_env [answer 404 ''not found'']) demo_json_backup zero_Backup panel
        MethodGet ApiEndpointServer [''s1''] [] world0) = Returned (obj', Some e))
   \<and> callApi (demo_env [cut_short 200 ''completed'']) demo_json_backup zero_Backup panel MethodGet
        ApiEndpointServer [''s1''] [] world0 =
      callApi (demo_env [answer 200 ''completed'']) demo_json_backup zero_Backup panel MethodGet
        ApiEndpointServer [''s1''] [] world0"
proof -
  let ?cut = "demo_env [cut_short 200 ''completed'']"
  let ?nf = "demo_env [answer 404 ''not found'']"
  have ok: "new_request_ok (demo_env rs) MethodGet (buildApiUrl panel ApiEndpointServer [''s1''])"
    for rs
    by (simp add: demo_simps)
  have net: "net ?cut (calls world0) =
               Inr \<lparr>StatusCode = 200, body = ''completed'', body_err = Some (NetError ''unexpected EOF'')\<rparr>"
    by (simp add: demo_simps)
  have net': "net ?nf (calls world0) =
               Inr \<lparr>StatusCode = 404, body = ''not found'', body_err = None\<rparr>"
    by (simp add: demo_simps)
  have same: "?cut\<lparr>net := (net ?cut)(calls world0 :=
                 Inr (\<lparr>StatusCode = 200, body = ''completed'',
                       body_err = Some (NetError ''unexpected EOF'')\<rparr>\<lparr>body_err := None\<rparr>))\<rparr> =
              demo_env [answer 200 ''completed'']"
    by (simp add: demo_simps fun_eq_iff)
  have dec: "snd (demo_json_backup ''completed'' zero_Backup) = None"
    by (simp add: demo_json_backup_def)
  note cut = callApi_error_iff [OF ok, of "[cut_short 200 ''completed'']" demo_json_backup
      zero_Backup "[]" world0]
  note nf = callApi_error_iff [OF ok, of "[answer 404 ''not found'']" demo_json_backup
      zero_Backup "[]" world0]
  from cut obtain obj1 err1 where
    r1: "fst (callApi ?cut demo_json_backup zero_Backup panel MethodGet ApiEndpointServer
           [''s1''] [] world0) = Returned (obj1, err1)"
    and e1: "(err1 \<noteq> None) =
      ((\<exists>e. net ?cut (calls world0) = Inl e)
       \<or> (\<exists>res. net ?cut (calls world0) = Inr res
             \<and> (StatusCode res \<noteq> 200 \<or> snd (demo_json_backup (body res) zero_Backup) \<noteq> None)))"
    by blast
  from e1 have "err1 = None" by (simp add: net dec)
  with r1 have 1: "\<exists>obj'. fst (callApi ?cut demo_json_backup zero_Backup panel
        MethodGet ApiEndpointServer [''s1''] [] world0) = Returned (obj', None)"
    by blast
  from nf obtain obj2 err2 where
    r2: "fst (callApi ?nf demo_json_backup zero_Backup panel MethodGet ApiEndpointServer
           [''s1''] [] world0) = Returned (obj2, err2)"
    and e2: "(err2 \<noteq> None) =
      ((\<exists>e. net ?nf (calls world0) = Inl e)
       \<or> (\<exists>res. net ?nf (calls world0) = Inr res
             \<and> (StatusCode res \<noteq> 200 \<or> snd (demo_json_backup (body res) zero_Backup) \<noteq> None)))"
    by blast
  from e2 have "err2 \<noteq> None" by (simp add: net')
  with r2 have 2: "\<exists>obj' e. fst (callApi ?nf demo_json_backup zero_Backup panel
        MethodGet ApiEndpointServer [''s1''] [] world0) = Returned (obj', Some e)"
    by auto
  have 3: "callApi ?cut demo_json_backup zero_Backup panel MethodGet
        ApiEndpointServer [''s1''] [] world0 =
      callApi (demo_env [answer 200 ''completed'']) demo_json_backup zero_Backup panel MethodGet
        ApiEndpointServer [''s1''] [] world0"
    using cut net same by simp
  from 1 2 3 show ?thesis by blast
qed

text \<open>
  C9, as stated, fails twice. With a base URL that \<^verbatim>\<open>http.NewRequest\<close> rejects the call
  panics and no request reaches the HTTP client. With a body that decodes and whose read
  ends in an error, the call succeeds with the decoded record, where an empty body gives a
  decoder error.
\<close>

theorem callApi_request_error_panics_and_cut_body_is_used:
  "fst (callApi (demo_env [answer 200 ''completed'']) demo_json_backup zero_Backup bad_panel
          MethodGet ApiEndpointServer [''s1''] [] world0) = Panicked
   \<and> outline (trace (snd (callApi (demo_env [answer 200 ''completed'']) demo_json_backup zero_Backup
          bad_panel MethodGet ApiEndpointServer [''s1''] [] world0))) = []
   \<and> fst (callApi (demo_env [cut_short 200 ''completed'']) demo_json_backup zero_Backup panel
          MethodGet ApiEndpointServer [''s1''] [] world0) = Returned (completed_backup, None)
   \<and> fst (callApi (demo_env [answer 200 '''']) demo_json_backup zero_Backup panel
          MethodGet ApiEndpointServer [''s1''] [] world0) =
       Returned (zero_Backup, Some (JsonError ''unexpected end of JSON input''))"
proof -
  have bad: "\<not> new_request_ok (demo_env rs) MethodGet
               (buildApiUrl bad_panel ApiEndpointServer [''s1''])" for rs
    by (simp add: demo_simps)
  have ok: "new_request_ok (demo_env rs) MethodGet
              (buildApiUrl panel ApiEndpointServer [''s1''])" for rs
    by (simp add: demo_simps)
  show ?thesis
    using callApi_panics [OF bad, of "[answer 200 ''completed'']" demo_json_backup zero_Backup "[]" world0]
      callApi_result [OF ok, of "[cut_short 200 ''completed'']" demo_json_backup zero_Backup "[]" world0]
      callApi_result [OF ok, of "[answer 200 '''']" demo_json_backup zero_Backup "[]" world0]
    by (simp add: demo_env_def script_def answer_def cut_short_def world0_def
        demo_json_backup_def demo_json_error_def)
qed

section \<open>The list accessors\<close>

lemma GetServers_result:
  assumes "new_request_ok env MethodGet (buildApiUrl ps ApiEndpointServers [])"
    and "net env (calls w) = Inr res" and "StatusCode res = 200"
    and "json_servers env (body res) zero_Servers = (sv, None)"
  shows "fst (GetServers env ps w) =
     Returned (case Servers sv of
                 None \<Rightarrow> (None, Some (Errorf ''no servers returned''))
               | Some xs \<Rightarrow> (Some xs, None))"
proof -
  let ?call = "callApi env (json_servers env) zero_Servers ps MethodGet ApiEndpointServers [] [] w"
  have "fst ?call = Returned (sv, None)"
    using assms by (simp add: callApi_result)
  then obtain w' where "?call = (Returned (sv, None), w')"
    by (metis prod.collapse)
  then show ?thesis
    by (simp add: GetServers_def split: option.splits)
qed

lemma GetServerBackups_result:
  assumes "new_request_ok env MethodGet
             (buildApiUrl ps ApiEndpointServer [server_UUID s, ApiEndpointBackups])"
    and "net env (calls w) = Inr res" and "StatusCode res = 200"
    and "json_backups env (body res) zero_Backups = (bk, None)"
  shows "fst (GetServerBackups env ps s w) =
     Returned (case Backups bk of
                 None \<Rightarrow> (None, Some (Errorf ''no backups returned''))
               | Some xs \<Rightarrow> (Some xs, None))"
proof -
  let ?call = "callApi env (json_backups env) zero_Backups ps MethodGet ApiEndpointServer
                 [server_UUID s, ApiEndpointBackups] [] w"
  have "fst ?call = Returned (bk, None)"
    using assms by (simp add: callApi_result)
  then obtain w' where "?call = (Returned (bk, None), w')"
    by (metis prod.collapse)
  then show ?thesis
    by (simp add: GetServerBackups_def split: option.splits)
qed

text \<open>
  C4, as the code has it. When the call has status 200 and the body decodes without error,
  \<^verbatim>\<open>GetServers\<close> and \<^verbatim>\<open>GetServerBackups\<close> fail with \<open>no servers returned\<close> and
  \<open>no backups returned\<close> when the decoded collection is nil, and return the collection
  when it is not nil, be it empty.
\<close>

theorem absent_collection_is_an_error:
  assumes "net env (calls w) = Inr res" and "StatusCode res = 200"
  shows "(new_request_ok env MethodGet (buildApiUrl ps ApiEndpointServers []) \<longrightarrow>
            (\<forall>sv. json_servers env (body res) zero_Servers = (sv, None) \<longrightarrow>
               fst (GetServers env ps w) =
                 Returned (case Servers sv of
                             None \<Rightarrow> (None, Some (Errorf ''no servers returned''))
                           | Some xs \<Rightarrow> (Some xs, None))))
       \<and> (new_request_ok env MethodGet
              (buildApiUrl ps ApiEndpointServer [server_UUID s, ApiEndpointBackups]) \<longrightarrow>
            (\<forall>bk. json_backups env (body res) zero_Backups = (bk, None) \<longrightarrow>
               fst (GetServerBackups env ps s w) =
                 Returned (case Backups bk of
                             None \<Rightarrow> (None, Some (Errorf ''no backups returned''))
                           | Some xs \<Rightarrow> (Some xs, None))))"
  using assms by (simp add: GetServers_result GetServerBackups_result)

theorem absent_collection_is_an_error_witness:
  "fst (GetServers (demo_env [answer 200 ''no field'']) panel world0) =
     Returned (None, Some (Errorf ''no servers returned''))
   \<and> fst (GetServerBackups (demo_env [answer 200 ''no field'']) panel srv1 world0) =
     Returned (None, Some (Errorf ''no backups returned''))"
proof -
  let ?env = "demo_env [answer 200 ''no field'']"
  have net: "net ?env (calls world0) = Inr \<lparr>StatusCode = 200, body = ''no field'', body_err = None\<rparr>"
    by (simp add: demo_simps)
  have st: "StatusCode \<lparr>StatusCode = 200, body = ''no field'', body_err = None\<rparr> = 200"
    by simp
  have ok1: "new_request_ok ?env MethodGet (buildApiUrl panel ApiEndpointServers [])"
    by (simp add: demo_simps)
  have ok2: "new_request_ok ?env MethodGet
               (buildApiUrl panel ApiEndpointServer [server_UUID srv1, ApiEndpointBackups])"
    by (simp add: demo_simps)
  have dec: "json_servers ?env ''no field'' zero_Servers = (zero_Servers, None)"
            "json_backups ?env ''no field'' zero_Backups = (zero_Backups, None)"
    by (simp_all add: demo_env_def demo_json_servers_def demo_json_backups_def)
  show ?thesis
    using absent_collection_is_an_error [OF net st, of panel srv1] ok1 ok2 dec
    by (simp add: zero_Servers_def zero_Backups_def)
qed

text \<open>
  C4, as stated, fails: a body whose collection is an empty array decodes to an empty slice
  that is not nil, the guard \<^verbatim>\<open>== nil\<close> lets it through, and both operations succeed
  with an empty list.
\<close>

theorem empty_collection_succeeds:
  "fst (GetServers (demo_env [answer 200 ''empty array'']) panel world0) = Returned (Some [], None)
   \<and> fst (GetServerBackups (demo_env [answer 200 ''empty array'']) panel srv1 world0) =
       Returned (Some [], None)"
proof -
  let ?env = "demo_env [answer 200 ''empty array'']"
  have net: "net ?env (calls world0) =
               Inr \<lparr>StatusCode = 200, body = ''empty array'', body_err = None\<rparr>"
    by (simp add: demo_simps)
  have ok1: "new_request_ok ?env MethodGet (buildApiUrl panel ApiEndpointServers [])"
    by (simp add: demo_simps)
  have ok2: "new_request_ok ?env MethodGet
               (buildApiUrl panel ApiEndpointServer [server_UUID srv1, ApiEndpointBackups])"
    by (simp add: demo_simps)
  have "fst (GetServers ?env panel world0) = Returned (Some [], None)"
    using GetServers_result [OF ok1 net, of "\<lparr>Servers = Some []\<rparr>"]
    by (simp add: demo_env_def demo_json_servers_def)
  moreover have "fst (GetServerBackups ?env panel srv1 world0) = Returned (Some [], None)"
    using GetServerBackups_result [OF ok2 net, of "\<lparr>Backups = Some []\<rparr>"]
    by (simp add: demo_env_def demo_json_backups_def)
  ultimately show ?thesis by simp
qed

section \<open>The download\<close>

lemma callApi_files: "files (snd (callApi env unm obj ps m ep sp d w)) = files w"
  by (simp add: callApi_def Let_def split: sum.splits prod.splits option.splits)

lemma callApi_handles: "handles (snd (callApi env unm obj ps m ep sp d w)) = handles w"
  by (simp add: callApi_def Let_def split: sum.splits prod.splits option.splits)

lemma callApi_calls:
  "fst (callApi env unm obj ps m ep sp d w) = Returned x \<Longrightarrow>
   calls (snd (callApi env unm obj ps m ep sp d w)) = Suc (calls w)"
  by (simp add: callApi_def Let_def split: sum.splits prod.splits option.splits if_splits)

lemma fmt_d_404: "fmt_d 404 = ''404''"
  by (simp add: fmt_d_def digits.simps)

lemma File_Write_handles: "handles (snd (File_Write env h d w)) = handles w"
  by (simp add: File_Write_def Let_def split: option.splits prod.splits)

lemma io_Copy_handles: "handles (snd (io_Copy env out res w)) = handles w"
  using File_Write_handles [of env out "body res" w]
  by (auto simp: io_Copy_def split: prod.splits option.splits)

lemma download_only_after_200:
  assumes "files (snd (DownloadServerBackup env ps s bid dest w)) \<noteq> files w
           \<or> handles (snd (DownloadServerBackup env ps s bid dest w)) \<noteq> handles w"
  shows "\<exists>res2. net env (Suc (calls w)) = Inr res2 \<and> StatusCode res2 = 200"
proof -
  let ?call = "callApi env (json_backup_url env) zero_BackupUrl ps MethodGet ApiEndpointServer
                 [server_UUID s, ApiEndpointBackups, bid, ''download''] [] w"
  obtain r1 w1 where c: "?call = (r1, w1)" by (cases ?call)
  have f: "files w1 = files w" using callApi_files [of env "json_backup_url env" zero_BackupUrl ps MethodGet ApiEndpointServer
                 "[server_UUID s, ApiEndpointBackups, bid, ''download'']" "[]" w] c by simp
  have h: "handles w1 = handles w" using callApi_handles [of env "json_backup_url env" zero_BackupUrl ps MethodGet ApiEndpointServer
                 "[server_UUID s, ApiEndpointBackups, bid, ''download'']" "[]" w] c by simp
  have n: "calls w1 = Suc (calls w)" if "r1 = Returned x" for x
    using callApi_calls [of env "json_backup_url env" zero_BackupUrl ps MethodGet ApiEndpointServer
                 "[server_UUID s, ApiEndpointBackups, bid, ''download'']" "[]" w x] c that by simp
  show ?thesis
    using assms f h n
    by (auto simp: DownloadServerBackup_def c Let_def StatusOK_def
        split: exec.splits option.splits sum.splits prod.splits if_splits)
qed

lemma download_non_200:
  assumes ok1: "new_request_ok env MethodGet
             (buildApiUrl ps ApiEndpointServer [server_UUID s, ApiEndpointBackups, bid, ''download''])"
    and r1: "net env (calls w) = Inr res1" and s1: "StatusCode res1 = 200"
    and dec: "json_backup_url env (body res1) zero_BackupUrl = (bu, None)"
    and ok2: "new_request_ok env MethodGet (URL bu)"
    and r2: "net env (Suc (calls w)) = Inr res2" and s2: "StatusCode res2 \<noteq> 200"
  shows "fst (DownloadServerBackup env ps s bid dest w) =
           Returned (None, Some (Errorf (''download failed with status code '' @
                                         fmt_d (StatusCode res2))))
       \<and> files (snd (DownloadServerBackup env ps s bid dest w)) = files w
       \<and> handles (snd (DownloadServerBackup env ps s bid dest w)) = handles w"
proof -
  let ?call = "callApi env (json_backup_url env) zero_BackupUrl ps MethodGet ApiEndpointServer
                 [server_UUID s, ApiEndpointBackups, bid, ''download''] [] w"
  have "fst ?call = Returned (bu, None)"
    using ok1 r1 s1 dec by (simp add: callApi_result)
  moreover obtain w1 where w1: "w1 = snd ?call" by simp
  ultimately have c: "?call = (Returned (bu, None), w1)"
    by (metis prod.collapse)
  have "calls w1 = Suc (calls w)" "files w1 = files w" "handles w1 = handles w"
    using ok1 by (simp_all add: w1 callApi_world)
  then show ?thesis
    using ok2 r2 s2 by (simp add: DownloadServerBackup_def c Let_def StatusOK_def)
qed

lemma download_ignores_error_decoder:
  assumes r1: "net env (calls w) = Inr res1" and s1: "StatusCode res1 = 200"
  shows "DownloadServerBackup (env\<lparr>json_api_errors := f\<rparr>) ps s bid dest w =
         DownloadServerBackup env ps s bid dest w"
proof -
  have c: "callApi (env\<lparr>json_api_errors := f\<rparr>) (json_backup_url env) zero_BackupUrl ps MethodGet
             ApiEndpointServer [server_UUID s, ApiEndpointBackups, bid, ''download''] [] w =
           callApi env (json_backup_url env) zero_BackupUrl ps MethodGet
             ApiEndpointServer [server_UUID s, ApiEndpointBackups, bid, ''download''] [] w"
    using r1 s1 by (simp add: callApi_def Let_def StatusOK_def)
  have o: "os_Create (env\<lparr>json_api_errors := f\<rparr>) = os_Create env"
    by (simp add: os_Create_def fun_eq_iff)
  have i: "io_Copy (env\<lparr>json_api_errors := f\<rparr>) = io_Copy env"
    by (simp add: io_Copy_def File_Write_def fun_eq_iff)
  show ?thesis
    by (simp add: DownloadServerBackup_def c o i Let_def
        cong: prod.case_cong exec.case_cong option.case_cong sum.case_cong if_cong)
qed

text \<open>
  C5. \<^verbatim>\<open>DownloadServerBackup\<close> changes the file system or the table of file handles
  only when the second round trip, the one to the signed URL, has answered with status 200.
  When that answer has another status, the download returns the error
  \<open>download failed with status code\<close> followed by the code in decimal, leaves every file
  and handle as it was, and does not consult the decoder of the error payload.
\<close>

theorem download_creates_file_only_after_200:
  "(files (snd (DownloadServerBackup env ps s bid dest w)) \<noteq> files w
      \<or> handles (snd (DownloadServerBackup env ps s bid dest w)) \<noteq> handles w \<longrightarrow>
      (\<exists>res2. net env (Suc (calls w)) = Inr res2 \<and> StatusCode res2 = 200))
   \<and> (\<forall>res1 bu res2.
        new_request_ok env MethodGet
          (buildApiUrl ps ApiEndpointServer [server_UUID s, ApiEndpointBackups, bid, ''download''])
        \<and> net env (calls w) = Inr res1 \<and> StatusCode res1 = 200
        \<and> json_backup_url env (body res1) zero_BackupUrl = (bu, None)
        \<and> new_request_ok env MethodGet (URL bu)
        \<and> net env (Suc (calls w)) = Inr res2 \<and> StatusCode res2 \<noteq> 200 \<longrightarrow>
        fst (DownloadServerBackup env ps s bid dest w) =
          Returned (None, Some (Errorf (''download failed with status code '' @
                                        fmt_d (StatusCode res2))))
        \<and> files (snd (DownloadServerBackup env ps s bid dest w)) = files w
        \<and> handles (snd (DownloadServerBackup env ps s bid dest w)) = handles w
        \<and> (\<forall>f. DownloadServerBackup (env\<lparr>json_api_errors := f\<rparr>) ps s bid dest w =
                 DownloadServerBackup env ps s bid dest w))"
  using download_only_after_200 [of env ps s bid dest w]
    download_non_200 [of env ps s bid w _ _ _ dest]
    download_ignores_error_decoder [of env w _ _ ps s bid dest]
  by blast

theorem download_creates_file_only_after_200_witness:
  "fst (DownloadServerBackup (demo_env [answer 200 ''signed'', answer 404 ''gone'']) panel srv1
          ''b1'' ''/tmp/b1.tar.gz'' world0) =
     Returned (None, Some (Errorf ''download failed with status code 404''))
   \<and> files (snd (DownloadServerBackup (demo_env [answer 200 ''signed'', answer 404 ''gone'']) panel
        srv1 ''b1'' ''/tmp/b1.tar.gz'' world0)) = Map.empty
   \<and> handles (snd (DownloadServerBackup (demo_env [answer 200 ''signed'', answer 404 ''gone''])
        panel srv1 ''b1'' ''/tmp/b1.tar.gz'' world0)) = []"
proof -
  let ?env = "demo_env [answer 200 ''signed'', answer 404 ''gone'']"
  have ok1: "new_request_ok ?env MethodGet
      (buildApiUrl panel ApiEndpointServer [server_UUID srv1, ApiEndpointBackups, ''b1'', ''download''])"
    by (simp add: demo_simps)
  have r1: "net ?env (calls world0) = Inr \<lparr>StatusCode = 200, body = ''signed'', body_err = None\<rparr>"
    by (simp add: demo_simps)
  have dec: "json_backup_url ?env ''signed'' zero_BackupUrl =
               (\<lparr>URL = ''https://cdn.example/b1?sig=1''\<rparr>, None)"
    by (simp add: demo_env_def demo_json_backup_url_def)
  have ok2: "new_request_ok ?env MethodGet ''https://cdn.example/b1?sig=1''"
    by (simp add: demo_simps)
  have r2: "net ?env (Suc (calls world0)) = Inr \<lparr>StatusCode = 404, body = ''gone'', body_err = None\<rparr>"
    by (simp add: demo_simps)
  show ?thesis
    using download_creates_file_only_after_200 [of ?env panel srv1 "''b1''" "''/tmp/b1.tar.gz''" world0]
      ok1 r1 dec ok2 r2
    by (simp add: fmt_d_404 world0_def)
qed

lemma File_Close_closes:
  "h < length (handles w) \<Longrightarrow> fst (handles w ! h) = p \<Longrightarrow>
   handles (snd (File_Close h w)) ! h = (p, False)
   \<and> length (handles (snd (File_Close h w))) = length (handles w)"
  by (cases "handles w ! h") (auto simp: File_Close_def is_open_def)

lemma closed_handle_unusable:
  "h < length (handles w) \<Longrightarrow> handles w ! h = (p, False) \<Longrightarrow>
   \<not> is_open w h \<and> File_Write env h d w = ((0, Some ErrClosed), w)
   \<and> File_Read h w = ([], Some ErrClosed)"
  by (simp add: is_open_def File_Write_def File_Read_def)

text \<open>
  C8. When \<^verbatim>\<open>DownloadServerBackup\<close> returns without error, the handle it returns is not
  nil and is already closed in the world it leaves behind, where it names the destination
  path: a write or a read through it fails with \<^verbatim>\<open>os.ErrClosed\<close>.
\<close>

theorem download_returns_closed_handle:
  assumes "DownloadServerBackup env ps s bid dest w = (Returned (out, None), w')"
  shows "\<exists>h. out = Some h \<and> h < length (handles w') \<and> handles w' ! h = (dest, False)
           \<and> \<not> is_open w' h
           \<and> File_Write env h d w' = ((0, Some ErrClosed), w')
           \<and> File_Read h w' = ([], Some ErrClosed)"
proof -
  let ?call = "callApi env (json_backup_url env) zero_BackupUrl ps MethodGet ApiEndpointServer
                 [server_UUID s, ApiEndpointBackups, bid, ''download''] [] w"
  obtain r1 w1 where c: "?call = (r1, w1)" by (cases ?call)
  from assms obtain h w4 res n w5 w6 where
      cr: "os_Create env dest w4 = (Inr h, w5)"
      and cp: "io_Copy env h res w5 = ((n, None), w6)"
      and out: "out = Some h"
      and w': "w' = snd (File_Close h w6)"
    by (auto simp: DownloadServerBackup_def c Let_def
        split: exec.splits option.splits sum.splits prod.splits if_splits)
  from cr have h: "h = length (handles w4)" and w5: "handles w5 = handles w4 @ [(dest, True)]"
    by (auto simp: os_Create_def split: option.splits)
  have hc: "handles w6 = handles w4 @ [(dest, True)]"
    using io_Copy_handles [of env h res w5] by (simp add: cp w5)
  have "h < length (handles w6)" "fst (handles w6 ! h) = dest"
    by (simp_all add: hc h)
  then have "handles w' ! h = (dest, False) \<and> length (handles w') = length (handles w6)"
    unfolding w' by (rule File_Close_closes)
  then have "h < length (handles w')" "handles w' ! h = (dest, False)"
    by (simp_all add: h hc)
  then show ?thesis
    using closed_handle_unusable [of h w' dest env d] out by simp
qed

lemma demo_download_ok:
  "fst (DownloadServerBackup (demo_env [answer 200 ''signed'', answer 200 ''archive'']) panel srv1
     ''b1'' ''/tmp/b1.tar.gz'' world0) = Returned (Some 0, None)
   \<and> files (snd (DownloadServerBackup (demo_env [answer 200 ''signed'', answer 200 ''archive''])
        panel srv1 ''b1'' ''/tmp/b1.tar.gz'' world0)) ''/tmp/b1.tar.gz'' = Some ''archive''"
  by (simp add: DownloadServerBackup_def callApi_def Let_def demo_simps StatusOK_def
      demo_json_backup_url_def zero_BackupUrl_def ReadAll_def os_Create_def io_Copy_def
      File_Write_def File_Close_def is_open_def)

theorem download_returns_closed_handle_witness:
  "fst (DownloadServerBackup (demo_env [answer 200 ''signed'', answer 200 ''archive'']) panel srv1
     ''b1'' ''/tmp/b1.tar.gz'' world0) = Returned (Some 0, None)
   \<and> files (snd (DownloadServerBackup (demo_env [answer 200 ''signed'', answer 200 ''archive''])
        panel srv1 ''b1'' ''/tmp/b1.tar.gz'' world0)) ''/tmp/b1.tar.gz'' = Some ''archive''
   \<and> handles (snd (DownloadServerBackup (demo_env [answer 200 ''signed'', answer 200 ''archive''])
        panel srv1 ''b1'' ''/tmp/b1.tar.gz'' world0)) ! 0 = (''/tmp/b1.tar.gz'', False)
   \<and> fst (File_Write (demo_env [answer 200 ''signed'', answer 200 ''archive'']) 0 ''more''
        (snd (DownloadServerBackup (demo_env [answer 200 ''signed'', answer 200 ''archive''])
           panel srv1 ''b1'' ''/tmp/b1.tar.gz'' world0))) = (0, Some ErrClosed)"
proof -
  let ?env = "demo_env [answer 200 ''signed'', answer 200 ''archive'']"
  let ?D = "DownloadServerBackup ?env panel srv1 ''b1'' ''/tmp/b1.tar.gz'' world0"
  have run: "?D = (Returned (Some 0, None), snd ?D)"
    using demo_download_ok by (metis prod.collapse)
  show ?thesis
    using download_returns_closed_handle [OF run, of "''more''"] demo_download_ok
    by auto
qed

section \<open>The backup poller\<close>

lemma reported_no_error: "reported env n = Some b \<Longrightarrow> fetch_error env n = None"
  by (auto simp: reported_def fetch_error_def split: sum.splits if_splits prod.splits option.splits)

lemma callApi_backup_reported:
  assumes "new_request_ok env m (buildApiUrl ps ep sp)" and "reported env (calls w) = Some b"
  shows "\<exists>w1. callApi env (json_backup env) zero_Backup ps m ep sp [] w = (Returned (b, None), w1)
           \<and> calls w1 = Suc (calls w) \<and> outline (trace w1) = outline (trace w) @ [m]
           \<and> WaitForBackupSeconds w1 = WaitForBackupSeconds w"
proof -
  let ?call = "callApi env (json_backup env) zero_Backup ps m ep sp [] w"
  have "fst ?call = Returned (b, None)"
    using assms
    by (auto simp: callApi_result reported_def split: sum.splits if_splits prod.splits option.splits)
  moreover have "calls (snd ?call) = Suc (calls w)"
    "outline (trace (snd ?call)) = outline (trace w) @ [m]"
    "WaitForBackupSeconds (snd ?call) = WaitForBackupSeconds w"
    using assms(1) by (simp_all add: callApi_world outline_append)
  ultimately show ?thesis by (metis prod.collapse)
qed

lemma callApi_backup_fails:
  assumes "new_request_ok env m (buildApiUrl ps ep sp)" and "fetch_error env (calls w) = Some e"
  shows "\<exists>b' w1. callApi env (json_backup env) zero_Backup ps m ep sp [] w = (Returned (b', Some e), w1)
           \<and> calls w1 = Suc (calls w) \<and> outline (trace w1) = outline (trace w) @ [m]"
proof -
  let ?call = "callApi env (json_backup env) zero_Backup ps m ep sp [] w"
  have "\<exists>b'. fst ?call = Returned (b', Some e)"
    using assms
    by (auto simp: callApi_result fetch_error_def prod_eq_iff
        split: sum.splits if_splits prod.splits option.splits)
  moreover have "calls (snd ?call) = Suc (calls w)"
    "outline (trace (snd ?call)) = outline (trace w) @ [m]"
    using assms(1) by (simp_all add: callApi_world outline_append)
  ultimately show ?thesis by (metis prod.collapse)
qed

lemma GetServerBackup_reported:
  assumes "new_request_ok env MethodGet (backup_url ps s bid)" and "reported env (calls w) = Some b"
  shows "\<exists>w1. GetServerBackup env ps s bid w = (Returned (b, None), w1)
           \<and> calls w1 = Suc (calls w) \<and> outline (trace w1) = outline (trace w) @ [''GET'']
           \<and> WaitForBackupSeconds w1 = WaitForBackupSeconds w"
  using callApi_backup_reported [OF assms [unfolded backup_url_def]]
  by (auto simp: GetServerBackup_def MethodGet_def)

lemma GetServerBackup_fails:
  assumes "new_request_ok env MethodGet (backup_url ps s bid)" and "fetch_error env (calls w) = Some e"
  shows "\<exists>b' w1. GetServerBackup env ps s bid w = (Returned (b', Some e), w1)
           \<and> calls w1 = Suc (calls w) \<and> outline (trace w1) = outline (trace w) @ [''GET'']"
  using callApi_backup_fails [OF assms [unfolded backup_url_def]]
  by (auto simp: GetServerBackup_def MethodGet_def)

lemma BackupServer_reported:
  assumes "new_request_ok env MethodPost
             (buildApiUrl ps (ApiEndpointServer @ ''/'' @ server_UUID s @ ''/'' @ ApiEndpointBackups) [])"
    and "reported env (calls w) = Some b"
  shows "\<exists>w1. BackupServer env ps s w = (Returned (b, None), w1)
           \<and> calls w1 = Suc (calls w) \<and> outline (trace w1) = outline (trace w) @ [''POST'']
           \<and> WaitForBackupSeconds w1 = WaitForBackupSeconds w"
  using callApi_backup_reported [OF assms]
  by (auto simp: BackupServer_def MethodPost_def)

lemma BackupServer_fails:
  assumes "new_request_ok env MethodPost
             (buildApiUrl ps (ApiEndpointServer @ ''/'' @ server_UUID s @ ''/'' @ ApiEndpointBackups) [])"
    and "fetch_error env (calls w) = Some e"
  shows "\<exists>b' w1. BackupServer env ps s w = (Returned (b', Some e), w1)
           \<and> calls w1 = Suc (calls w) \<and> outline (trace w1) = outline (trace w) @ [''POST'']"
  using callApi_backup_fails [OF assms]
  by (auto simp: BackupServer_def MethodPost_def)

lemma wait_loop_completes:
  assumes "\<forall>k\<le>n. reported env (calls w + k) = Some (f k)"
    and "\<forall>k<n. IsZero (CompletedAt (f k))"
    and "\<not> IsZero (CompletedAt (f n))"
    and "new_request_ok env MethodGet (backup_url ps s (backup_UUID b))"
    and "\<forall>k<n. new_request_ok env MethodGet (backup_url ps s (backup_UUID (f k)))"
  shows "\<exists>w'. wait_loop env ps s b w = Some (Returned (Some (f n), None), w')
           \<and> calls w' = calls w + n + 1
           \<and> outline (trace w') = outline (trace w) @ replicate (n + 1) ''GET'' @ [''sleep'']
           \<and> last (trace w') = Sleep (WaitForBackupSeconds w * Second)"
  using assms
proof (induction n arbitrary: w b f)
  case 0
  from 0 have "reported env (calls w) = Some (f 0)" by simp
  from GetServerBackup_reported [OF "0.prems"(4) this]
  obtain w1 where g: "GetServerBackup env ps s (backup_UUID b) w = (Returned (f 0, None), w1)"
    and w1: "calls w1 = Suc (calls w)" "outline (trace w1) = outline (trace w) @ [''GET'']"
      "WaitForBackupSeconds w1 = WaitForBackupSeconds w"
    by blast
  have "wait_loop env ps s b w =
          Some (Returned (Some (f 0), None), time_Sleep (WaitForBackupSeconds w1 * Second) w1)"
    using "0.prems"(3) by (subst wait_loop.simps) (simp add: g)
  then show ?case
    using w1 by (simp add: time_Sleep_def outline_append)
next
  case (Suc n)
  from Suc.prems(1) [rule_format, of 0] have "reported env (calls w) = Some (f 0)" by simp
  from GetServerBackup_reported [OF Suc.prems(4) this]
  obtain w1 where g: "GetServerBackup env ps s (backup_UUID b) w = (Returned (f 0, None), w1)"
    and w1: "calls w1 = Suc (calls w)" "outline (trace w1) = outline (trace w) @ [''GET'']"
      "WaitForBackupSeconds w1 = WaitForBackupSeconds w"
    by blast
  have z: "IsZero (CompletedAt (f 0))" using Suc.prems(2) by simp
  have step: "wait_loop env ps s b w = wait_loop env ps s (f 0) w1"
    using z by (subst wait_loop.simps) (simp add: g)
  let ?f = "\<lambda>k. f (Suc k)"
  have "\<exists>w'. wait_loop env ps s (f 0) w1 = Some (Returned (Some (?f n), None), w')
           \<and> calls w' = calls w1 + n + 1
           \<and> outline (trace w') = outline (trace w1) @ replicate (n + 1) ''GET'' @ [''sleep'']
           \<and> last (trace w') = Sleep (WaitForBackupSeconds w1 * Second)"
  proof (rule Suc.IH)
    show "\<forall>k\<le>n. reported env (calls w1 + k) = Some (f (Suc k))"
      using Suc.prems(1) w1(1) by (metis Suc_le_mono add_Suc add_Suc_right)
    show "\<forall>k<n. IsZero (CompletedAt (f (Suc k)))"
      using Suc.prems(2) by simp
    show "\<not> IsZero (CompletedAt (f (Suc n)))"
      using Suc.prems(3) by simp
    show "new_request_ok env MethodGet (backup_url ps s (backup_UUID (f 0)))"
      using Suc.prems(5) by simp
    show "\<forall>k<n. new_request_ok env MethodGet (backup_url ps s (backup_UUID (f (Suc k))))"
      using Suc.prems(5) by simp
  qed
  then show ?case
    using w1 by (auto simp: step replicate_app_Cons_same)
qed


lemma wait_loop_aborts:
  assumes "\<forall>k<n. reported env (calls w + k) = Some (f k)"
    and "\<forall>k<n. IsZero (CompletedAt (f k))"
    and "fetch_error env (calls w + n) = Some e"
    and "new_request_ok env MethodGet (backup_url ps s (backup_UUID b))"
    and "\<forall>k<n. new_request_ok env MethodGet (backup_url ps s (backup_UUID (f k)))"
  shows "\<exists>w'. wait_loop env ps s b w = Some (Returned (None, Some e), w')
           \<and> calls w' = calls w + n + 1
           \<and> outline (trace w') = outline (trace w) @ replicate (n + 1) ''GET''"
  using assms
proof (induction n arbitrary: w b f)
  case 0
  from 0 have "fetch_error env (calls w) = Some e" by simp
  from GetServerBackup_fails [OF "0.prems"(4) this]
  obtain b' w1 where g: "GetServerBackup env ps s (backup_UUID b) w = (Returned (b', Some e), w1)"
    and w1: "calls w1 = Suc (calls w)" "outline (trace w1) = outline (trace w) @ [''GET'']"
    by blast
  have "wait_loop env ps s b w = Some (Returned (None, Some e), w1)"
    by (subst wait_loop.simps) (simp add: g)
  then show ?case
    using w1 by simp
next
  case (Suc n)
  from Suc.prems(1) [rule_format, of 0] have "reported env (calls w) = Some (f 0)" by simp
  from GetServerBackup_reported [OF Suc.prems(4) this]
  obtain w1 where g: "GetServerBackup env ps s (backup_UUID b) w = (Returned (f 0, None), w1)"
    and w1: "calls w1 = Suc (calls w)" "outline (trace w1) = outline (trace w) @ [''GET'']"
    by blast
  have z: "IsZero (CompletedAt (f 0))" using Suc.prems(2) by simp
  have step: "wait_loop env ps s b w = wait_loop env ps s (f 0) w1"
    using z by (subst wait_loop.simps) (simp add: g)
  let ?f = "\<lambda>k. f (Suc k)"
  have "\<exists>w'. wait_loop env ps s (f 0) w1 = Some (Returned (None, Some e), w')
           \<and> calls w' = calls w1 + n + 1
           \<and> outline (trace w') = outline (trace w1) @ replicate (n + 1) ''GET''"
  proof (rule Suc.IH [of w1 ?f])
    show "\<forall>k<n. reported env (calls w1 + k) = Some (f (Suc k))"
      using Suc.prems(1) w1(1) by (metis Suc_less_eq add_Suc add_Suc_right)
    show "\<forall>k<n. IsZero (CompletedAt (f (Suc k)))"
      using Suc.prems(2) by simp
    show "fetch_error env (calls w1 + n) = Some e"
      using Suc.prems(3) w1(1) by simp
    show "new_request_ok env MethodGet (backup_url ps s (backup_UUID (f 0)))"
      using Suc.prems(5) by simp
    show "\<forall>k<n. new_request_ok env MethodGet (backup_url ps s (backup_UUID (f (Suc k))))"
      using Suc.prems(5) by simp
  qed
  then show ?case
    using w1 by (auto simp: step replicate_app_Cons_same)
qed

lemma wait_completes:
  assumes N: "0 < N"
    and post: "new_request_ok env MethodPost
           (buildApiUrl ps (ApiEndpointServer @ ''/'' @ server_UUID s @ ''/'' @ ApiEndpointBackups) [])"
    and gets: "\<forall>k<N. new_request_ok env MethodGet (backup_url ps s (backup_UUID (bs k)))"
    and rep: "\<forall>k\<le>N. reported env (calls w + k) = Some (bs k)"
    and pend: "\<forall>k. 0 < k \<and> k < N \<longrightarrow> IsZero (CompletedAt (bs k))"
    and compl: "\<not> IsZero (CompletedAt (bs N))"
  shows "\<exists>w'. BackupServerWithWait env ps s w = Some (Returned (Some (bs N), None), w')
           \<and> calls w' = calls w + 1 + N
           \<and> outline (trace w') = outline (trace w) @ ''POST'' # replicate N ''GET'' @ [''sleep'']
           \<and> last (trace w') = Sleep (WaitForBackupSeconds w * Second)"
proof -
  from N obtain n where n: "N = Suc n" by (cases N) auto
  from rep [rule_format, of 0] have "reported env (calls w) = Some (bs 0)" by simp
  from BackupServer_reported [OF post this]
  obtain w0 where b: "BackupServer env ps s w = (Returned (bs 0, None), w0)"
    and w0: "calls w0 = Suc (calls w)" "outline (trace w0) = outline (trace w) @ [''POST'']"
      "WaitForBackupSeconds w0 = WaitForBackupSeconds w"
    by blast
  let ?f = "\<lambda>k. bs (Suc k)"
  have "\<exists>w'. wait_loop env ps s (bs 0) w0 = Some (Returned (Some (?f n), None), w')
           \<and> calls w' = calls w0 + n + 1
           \<and> outline (trace w') = outline (trace w0) @ replicate (n + 1) ''GET'' @ [''sleep'']
           \<and> last (trace w') = Sleep (WaitForBackupSeconds w0 * Second)"
  proof (rule wait_loop_completes)
    show "\<forall>k\<le>n. reported env (calls w0 + k) = Some (bs (Suc k))"
      using rep w0(1) n by (metis Suc_le_mono add_Suc add_Suc_right)
    show "\<forall>k<n. IsZero (CompletedAt (bs (Suc k)))"
      using pend n by simp
    show "\<not> IsZero (CompletedAt (bs (Suc n)))"
      using compl n by simp
    show "new_request_ok env MethodGet (backup_url ps s (backup_UUID (bs 0)))"
      using gets N by simp
    show "\<forall>k<n. new_request_ok env MethodGet (backup_url ps s (backup_UUID (bs (Suc k))))"
      using gets n by simp
  qed
  then show ?thesis
    using w0 n by (auto simp: BackupServerWithWait_def b)
qed

lemma wait_aborts:
  assumes post: "new_request_ok env MethodPost
           (buildApiUrl ps (ApiEndpointServer @ ''/'' @ server_UUID s @ ''/'' @ ApiEndpointBackups) [])"
    and gets: "\<forall>k<N. new_request_ok env MethodGet (backup_url ps s (backup_UUID (bs k)))"
    and rep: "\<forall>k<N. reported env (calls w + k) = Some (bs k)"
    and pend: "\<forall>k. 0 < k \<and> k < N \<longrightarrow> IsZero (CompletedAt (bs k))"
    and err: "fetch_error env (calls w + N) = Some e"
  shows "\<exists>w'. BackupServerWithWait env ps s w = Some (Returned (None, Some e), w')
           \<and> calls w' = calls w + N + 1
           \<and> outline (trace w') = outline (trace w) @ ''POST'' # replicate N ''GET''"
proof (cases N)
  case 0
  with err have "fetch_error env (calls w) = Some e" by simp
  from BackupServer_fails [OF post this]
  obtain b' w1 where b: "BackupServer env ps s w = (Returned (b', Some e), w1)"
    and w1: "calls w1 = Suc (calls w)" "outline (trace w1) = outline (trace w) @ [''POST'']"
    by blast
  then show ?thesis
    using 0 by (simp add: BackupServerWithWait_def)
next
  case (Suc n)
  from rep [rule_format, of 0] Suc have "reported env (calls w) = Some (bs 0)" by simp
  from BackupServer_reported [OF post this]
  obtain w0 where b: "BackupServer env ps s w = (Returned (bs 0, None), w0)"
    and w0: "calls w0 = Suc (calls w)" "outline (trace w0) = outline (trace w) @ [''POST'']"
    by blast
  let ?f = "\<lambda>k. bs (Suc k)"
  have "\<exists>w'. wait_loop env ps s (bs 0) w0 = Some (Returned (None, Some e), w')
           \<and> calls w' = calls w0 + n + 1
           \<and> outline (trace w') = outline (trace w0) @ replicate (n + 1) ''GET''"
  proof (rule wait_loop_aborts [of n env w0 ?f])
    show "\<forall>k<n. reported env (calls w0 + k) = Some (bs (Suc k))"
      using rep w0(1) Suc by (metis Suc_less_eq add_Suc add_Suc_right)
    show "\<forall>k<n. IsZero (CompletedAt (bs (Suc k)))"
      using pend Suc by simp
    show "fetch_error env (calls w0 + n) = Some e"
      using err w0(1) Suc by simp
    show "new_request_ok env MethodGet (backup_url ps s (backup_UUID (bs 0)))"
      using gets Suc by simp
    show "\<forall>k<n. new_request_ok env MethodGet (backup_url ps s (backup_UUID (bs (Suc k))))"
      using gets Suc by simp
  qed
  then show ?thesis
    using w0 Suc by (auto simp: BackupServerWithWait_def b)
qed


lemma demo_reported:
  "reported (demo_env rs) n =
     (if n < length rs then
        (case rs ! n of
           Inl err \<Rightarrow> None
         | Inr res \<Rightarrow>
             if StatusCode res = 200 \<and> body res = ''pending'' then Some pending_backup
             else if StatusCode res = 200 \<and> body res = ''completed'' then Some completed_backup
             else None)
      else None)"
  by (simp add: reported_def demo_env_def script_def demo_json_backup_def split: sum.splits)

lemma demo_request_ok: "new_request_ok (demo_env rs) m u = (CHR 0x7F \<notin> set u)"
  by (simp add: demo_env_def)

lemma demo_urls_ok:
  "new_request_ok (demo_env rs) MethodPost
     (buildApiUrl panel (ApiEndpointServer @ ''/'' @ server_UUID srv1 @ ''/'' @ ApiEndpointBackups) [])"
  "new_request_ok (demo_env rs) MethodGet (backup_url panel srv1 ''b1'')"
  by (simp_all add: demo_request_ok backup_url_def buildApiUrl_def panel_def srv1_def
      ApiEndpointBase_def ApiEndpointServer_def ApiEndpointBackups_def)

text \<open>
  C6. Let the request for a backup succeed, let the first \<open>N - 1\<close> status fetches
  report a record whose completion timestamp is zero, and let the \<open>N\<close>-th report one
  whose timestamp is set. Then \<^verbatim>\<open>BackupServerWithWait\<close> returns, with the record of the
  \<open>N\<close>-th fetch and no error, after the one POST and exactly \<open>N\<close> fetches.
\<close>

theorem wait_performs_exactly_N_fetches:
  assumes "0 < N"
    and "new_request_ok env MethodPost
           (buildApiUrl ps (ApiEndpointServer @ ''/'' @ server_UUID s @ ''/'' @ ApiEndpointBackups) [])"
    and "\<forall>k<N. new_request_ok env MethodGet (backup_url ps s (backup_UUID (bs k)))"
    and "\<forall>k\<le>N. reported env (calls w + k) = Some (bs k)"
    and "\<forall>k. 0 < k \<and> k < N \<longrightarrow> IsZero (CompletedAt (bs k))"
    and "\<not> IsZero (CompletedAt (bs N))"
  shows "\<exists>w'. BackupServerWithWait env ps s w = Some (Returned (Some (bs N), None), w')
           \<and> calls w' = calls w + 1 + N
           \<and> outline (trace w') = outline (trace w) @ ''POST'' # replicate N ''GET'' @ [''sleep'']"
  using wait_completes [OF assms] by blast

theorem wait_performs_exactly_N_fetches_witness:
  "map_option fst (BackupServerWithWait
      (demo_env [answer 200 ''pending'', answer 200 ''pending'', answer 200 ''completed''])
      panel srv1 world0) = Some (Returned (Some completed_backup, None))
   \<and> map_option (\<lambda>r. calls (snd r)) (BackupServerWithWait
      (demo_env [answer 200 ''pending'', answer 200 ''pending'', answer 200 ''completed''])
      panel srv1 world0) = Some 3
   \<and> map_option (\<lambda>r. outline (trace (snd r))) (BackupServerWithWait
      (demo_env [answer 200 ''pending'', answer 200 ''pending'', answer 200 ''completed''])
      panel srv1 world0) = Some [''POST'', ''GET'', ''GET'', ''sleep'']"
proof -
  let ?env = "demo_env [answer 200 ''pending'', answer 200 ''pending'', answer 200 ''completed'']"
  let ?bs = "\<lambda>k::nat. if k < 2 then pending_backup else completed_backup"
  have N: "(0::nat) < 2" by simp
  have gets: "\<forall>k<2. new_request_ok ?env MethodGet (backup_url panel srv1 (backup_UUID (?bs k)))"
    using demo_urls_ok(2) by (simp add: pending_backup_def)
  have rep: "\<forall>k\<le>2. reported ?env (calls world0 + k) = Some (?bs k)"
  proof (intro allI impI)
    fix k :: nat
    assume "k \<le> 2"
    then consider "k = 0" | "k = 1" | "k = 2" by linarith
    then show "reported ?env (calls world0 + k) = Some (?bs k)"
      by cases (simp_all add: demo_reported world0_def answer_def)
  qed
  have pend: "\<forall>k. 0 < k \<and> k < 2 \<longrightarrow> IsZero (CompletedAt (?bs k))"
    by (simp add: IsZero_def pending_backup_def)
  have compl: "\<not> IsZero (CompletedAt (?bs 2))"
    by (simp add: IsZero_def completed_backup_def)
  show ?thesis
    using wait_performs_exactly_N_fetches [OF N demo_urls_ok(1) gets rep pend compl]
    by (auto simp: world0_def numeral_2_eq_2)
qed

text \<open>
  C7. Let the request for a backup and the status fetches before the \<open>N\<close>-th succeed
  and report pending records, and let the \<open>N\<close>-th call fail with an error (of the
  transport, of the panel, or of the decoder; \<open>N = 0\<close> is the request itself). Then
  \<^verbatim>\<open>BackupServerWithWait\<close> returns that error and no record, and the failed call is the
  last thing it did: no further round trip and no sleep.
\<close>

theorem wait_aborts_on_failed_fetch:
  assumes "new_request_ok env MethodPost
           (buildApiUrl ps (ApiEndpointServer @ ''/'' @ server_UUID s @ ''/'' @ ApiEndpointBackups) [])"
    and "\<forall>k<N. new_request_ok env MethodGet (backup_url ps s (backup_UUID (bs k)))"
    and "\<forall>k<N. reported env (calls w + k) = Some (bs k)"
    and "\<forall>k. 0 < k \<and> k < N \<longrightarrow> IsZero (CompletedAt (bs k))"
    and "fetch_error env (calls w + N) = Some e"
  shows "\<exists>w'. BackupServerWithWait env ps s w = Some (Returned (None, Some e), w')
           \<and> calls w' = calls w + N + 1
           \<and> outline (trace w') = outline (trace w) @ ''POST'' # replicate N ''GET''"
  using assms by (rule wait_aborts)

theorem wait_aborts_on_failed_fetch_witness:
  "map_option fst (BackupServerWithWait
      (demo_env [answer 200 ''pending'', answer 200 ''pending'', answer 404 ''not found''])
      panel srv1 world0) =
     Some (Returned (None, Some (Errorf
       ''api call failed with errors: {[{NotFoundHttpException no such resource}]}'')))
   \<and> map_option (\<lambda>r. outline (trace (snd r))) (BackupServerWithWait
      (demo_env [answer 200 ''pending'', answer 200 ''pending'', answer 404 ''not found''])
      panel srv1 world0) = Some [''POST'', ''GET'', ''GET'']
   \<and> map_option fst (BackupServerWithWait (demo_env [answer 200 ''pending'']) panel srv1 world0) =
     Some (Returned (None, Some (NetError ''connection refused'')))
   \<and> map_option (\<lambda>r. outline (trace (snd r)))
        (BackupServerWithWait (demo_env [answer 200 ''pending'']) panel srv1 world0) =
     Some [''POST'', ''GET'']"
proof -
  let ?env = "demo_env [answer 200 ''pending'', answer 200 ''pending'', answer 404 ''not found'']"
  let ?env' = "demo_env [answer 200 ''pending'']"
  let ?bs = "\<lambda>k::nat. pending_backup"
  have gets: "\<forall>k<n. new_request_ok (demo_env rs) MethodGet
                (backup_url panel srv1 (backup_UUID (?bs k)))" for n rs
    using demo_urls_ok(2) by (simp add: pending_backup_def)
  have rep: "\<forall>k<2. reported ?env (calls world0 + k) = Some (?bs k)"
  proof (intro allI impI)
    fix k :: nat
    assume "k < 2"
    then consider "k = 0" | "k = 1" by linarith
    then show "reported ?env (calls world0 + k) = Some (?bs k)"
      by cases (simp_all add: demo_reported world0_def answer_def)
  qed
  have rep': "\<forall>k<1. reported ?env' (calls world0 + k) = Some (?bs k)"
    by (simp add: demo_reported world0_def answer_def)
  have pend: "\<forall>k. 0 < k \<and> k < n \<longrightarrow> IsZero (CompletedAt (?bs k))" for n
    by (simp add: IsZero_def pending_backup_def)
  have err: "fetch_error ?env (calls world0 + 2) =
      Some (Errorf ''api call failed with errors: {[{NotFoundHttpException no such resource}]}'')"
    by (simp add: fetch_error_def demo_env_def script_def world0_def answer_def
        demo_json_api_errors_def zero_ApiErrors_def fmt_s_ApiErrors_def fmt_s_ApiError_def)
  have err': "fetch_error ?env' (calls world0 + 1) = Some (NetError ''connection refused'')"
    by (simp add: fetch_error_def demo_env_def script_def world0_def)
  show ?thesis
    using wait_aborts_on_failed_fetch [OF demo_urls_ok(1) gets rep pend err]
      wait_aborts_on_failed_fetch [OF demo_urls_ok(1) gets rep' pend err']
    by (auto simp: world0_def numeral_2_eq_2)
qed

text \<open>
  C1 does not hold of the code. The sleep stands in the branch taken when the completion
  timestamp is set, before the \<^verbatim>\<open>break\<close>. At a panel whose first status fetch already
  reports the backup completed, the run is a POST, a GET and then a sleep of five seconds
  before the record is returned. At a panel that reports it pending twice and then
  completed, the three fetches follow one another with no sleep between them.
\<close>

theorem wait_sleeps_after_completion_only:
  "map_option (\<lambda>r. outline (trace (snd r)))
     (BackupServerWithWait (demo_env [answer 200 ''pending'', answer 200 ''completed''])
        panel srv1 world0) = Some [''POST'', ''GET'', ''sleep'']
   \<and> map_option (\<lambda>r. last (trace (snd r)))
     (BackupServerWithWait (demo_env [answer 200 ''pending'', answer 200 ''completed''])
        panel srv1 world0) = Some (Sleep 5000000000)
   \<and> map_option (\<lambda>r. outline (trace (snd r)))
     (BackupServerWithWait
        (demo_env [answer 200 ''pending'', answer 200 ''pending'', answer 200 ''pending'',
                   answer 200 ''completed''])
        panel srv1 world0) = Some [''POST'', ''GET'', ''GET'', ''GET'', ''sleep'']"
proof -
  let ?env1 = "demo_env [answer 200 ''pending'', answer 200 ''completed'']"
  let ?env3 = "demo_env [answer 200 ''pending'', answer 200 ''pending'', answer 200 ''pending'',
                   answer 200 ''completed'']"
  let ?bs1 = "\<lambda>k::nat. if k < 1 then pending_backup else completed_backup"
  let ?bs3 = "\<lambda>k::nat. if k < 3 then pending_backup else completed_backup"
  have gets: "\<forall>k<n. new_request_ok (demo_env rs) MethodGet
                (backup_url panel srv1 (backup_UUID (if k < j then pending_backup else completed_backup)))"
    for n j rs
    using demo_urls_ok(2) by (simp add: pending_backup_def completed_backup_def)
  have rep1: "\<forall>k\<le>1. reported ?env1 (calls world0 + k) = Some (?bs1 k)"
  proof (intro allI impI)
    fix k :: nat
    assume "k \<le> 1"
    then consider "k = 0" | "k = 1" by linarith
    then show "reported ?env1 (calls world0 + k) = Some (?bs1 k)"
      by cases (simp_all add: demo_reported world0_def answer_def)
  qed
  have rep3: "\<forall>k\<le>3. reported ?env3 (calls world0 + k) = Some (?bs3 k)"
  proof (intro allI impI)
    fix k :: nat
    assume "k \<le> 3"
    then consider "k = 0" | "k = 1" | "k = 2" | "k = 3" by linarith
    then show "reported ?env3 (calls world0 + k) = Some (?bs3 k)"
      by cases (simp_all add: demo_reported world0_def answer_def)
  qed
  have pend: "\<forall>k. 0 < k \<and> k < n \<longrightarrow>
                IsZero (CompletedAt (if k < n then pending_backup else completed_backup))" for n :: nat
    by (simp add: IsZero_def pending_backup_def)
  have compl: "\<not> IsZero (CompletedAt (if n < n then pending_backup else completed_backup))" for n :: nat
    by (simp add: IsZero_def completed_backup_def)
  show ?thesis
    using wait_completes [of 1 ?env1 panel srv1 ?bs1 world0, OF _ demo_urls_ok(1) gets rep1 pend compl]
      wait_completes [of 3 ?env3 panel srv1 ?bs3 world0, OF _ demo_urls_ok(1) gets rep3 pend compl]
    by (auto simp: world0_def Second_def numeral_3_eq_3)
qed

end
